theory Spec2Isabelle
  imports Main "HOL-Library.Char_ord" "HOL-Library.List_Lexorder" "HOL-Library.Sublist"
begin

section \<open>The Kustomization manifest (pkg/resources/kustomization.go)\<close>

text \<open>
  Go strings are byte sequences and \<open>sort.Strings\<close> orders them bytewise, a proper prefix
  first. \<open>string\<close> is a list of 8-bit characters; the imported orders compare characters by
  their code and lists lexicographically, which is the same order.
\<close>

record Patch =
  Path :: string

record Kustomization =
  APIVersion :: string
  Kind :: string
  Resources :: "string list"
  Bases :: "string list"
  Patches :: "Patch list"
  CommonLabels :: "string \<rightharpoonup> string"

text \<open>
  The loop of \<open>removeDuplicatesAndSort\<close>: \<open>seen\<close> is the map \<open>exists\<close>, \<open>out\<close> the slice
  being built. Reading a key that is not in a Go \<open>map[string]bool\<close> gives false.
\<close>

definition lookup_bool :: "(string \<rightharpoonup> bool) \<Rightarrow> string \<Rightarrow> bool" where
  "lookup_bool m v = (case m v of None \<Rightarrow> False | Some b \<Rightarrow> b)"

fun removeDuplicates_loop :: "(string \<rightharpoonup> bool) \<Rightarrow> string list \<Rightarrow> string list \<Rightarrow> string list" where
  "removeDuplicates_loop seen out [] = out"
| "removeDuplicates_loop seen out (v # s) =
     (if \<not> lookup_bool seen v then removeDuplicates_loop (seen(v \<mapsto> True)) (out @ [v]) s
      else removeDuplicates_loop seen out s)"

definition removeDuplicatesAndSort :: "string list \<Rightarrow> string list" where
  "removeDuplicatesAndSort s = sort (removeDuplicates_loop Map.empty [] s)"

text \<open>\<open>getPatchFiles\<close> and \<open>addFilestoPatches\<close> append one element per iteration.\<close>

fun getPatchFiles_loop :: "string list \<Rightarrow> Patch list \<Rightarrow> string list" where
  "getPatchFiles_loop files [] = files"
| "getPatchFiles_loop files (patch # patches) = getPatchFiles_loop (files @ [Path patch]) patches"

definition getPatchFiles :: "Patch list \<Rightarrow> string list" where
  "getPatchFiles patches = getPatchFiles_loop [] patches"

fun addFilestoPatches_loop :: "Patch list \<Rightarrow> string list \<Rightarrow> Patch list" where
  "addFilestoPatches_loop patches [] = patches"
| "addFilestoPatches_loop patches (file # files) =
     addFilestoPatches_loop (patches @ [\<lparr>Path = file\<rparr>]) files"

definition addFilestoPatches :: "string list \<Rightarrow> Patch list" where
  "addFilestoPatches files = addFilestoPatches_loop [] files"

definition AddResources :: "Kustomization \<Rightarrow> string list \<Rightarrow> Kustomization" where
  "AddResources k s = k\<lparr>Resources := removeDuplicatesAndSort (Resources k @ s)\<rparr>"

definition AddBases :: "Kustomization \<Rightarrow> string list \<Rightarrow> Kustomization" where
  "AddBases k s = k\<lparr>Bases := removeDuplicatesAndSort (Bases k @ s)\<rparr>"

definition AddPatches :: "Kustomization \<Rightarrow> string list \<Rightarrow> Kustomization" where
  "AddPatches k s =
     (let files = removeDuplicatesAndSort (getPatchFiles (Patches k) @ s)
      in k\<lparr>Patches := addFilestoPatches files\<rparr>)"

text \<open>
  \<open>CompareDifferenceAndAddCustomPatches\<close>: the first loop fills the map \<open>originalPatches\<close>,
  the second collects the generated names that are not a key of it.
\<close>

fun originalPatches_loop :: "(string \<rightharpoonup> bool) \<Rightarrow> Patch list \<Rightarrow> (string \<rightharpoonup> bool)" where
  "originalPatches_loop m [] = m"
| "originalPatches_loop m (originalElement # original) =
     originalPatches_loop (m(Path originalElement \<mapsto> True)) original"

fun newGeneratedFiles_loop :: "(string \<rightharpoonup> bool) \<Rightarrow> string list \<Rightarrow> string list \<Rightarrow> string list" where
  "newGeneratedFiles_loop m newGeneratedFiles [] = newGeneratedFiles"
| "newGeneratedFiles_loop m newGeneratedFiles (generatedElement # generated) =
     (case m generatedElement of
        None \<Rightarrow> newGeneratedFiles_loop m (newGeneratedFiles @ [generatedElement]) generated
      | Some _ \<Rightarrow> newGeneratedFiles_loop m newGeneratedFiles generated)"

definition CompareDifferenceAndAddCustomPatches ::
  "Kustomization \<Rightarrow> Patch list \<Rightarrow> string list \<Rightarrow> Kustomization" where
  "CompareDifferenceAndAddCustomPatches k original generated =
     (let originalPatches = originalPatches_loop Map.empty original;
          newGeneratedFiles = newGeneratedFiles_loop originalPatches [] generated;
          newPatchesList = newGeneratedFiles @ getPatchFiles original
      in k\<lparr>Patches := addFilestoPatches newPatchesList\<rparr>)"


section \<open>The Git synchronisation driver (CloneGenerateAndPush, CommitAndPush, ...)\<close>

text \<open>
  An \<open>Execution\<close> is one call of the command executor: working directory, command name and
  argument list. A Go \<open>error\<close> is modelled by its message, \<open>nil\<close> by \<open>None\<close>; the output bytes
  of a command are a \<open>string\<close>.
\<close>

record Execution =
  BaseDir :: string
  Command :: string
  Args :: "string list"

abbreviation git :: "string \<Rightarrow> string list \<Rightarrow> Execution" where
  "git dir args \<equiv> \<lparr>BaseDir = dir, Command = ''git'', Args = args\<rparr>"

abbreviation rm_rf :: "string \<Rightarrow> string \<Rightarrow> Execution" where
  "rm_rf dir path \<equiv> \<lparr>BaseDir = dir, Command = ''rm'', Args = [''-rf'', path]\<rparr>"

text \<open>The four commands of \<open>CommitAndPush\<close>, in the order in which they are issued.\<close>

abbreviation commit_push_cmds :: "string \<Rightarrow> string \<Rightarrow> string \<Rightarrow> Execution list" where
  "commit_push_cmds repoPath commitMessage branch \<equiv>
     [git repoPath [''add'', ''.''], git repoPath [''--no-pager'', ''diff'', ''--cached''],
      git repoPath [''commit'', ''-m'', commitMessage], git repoPath [''push'', ''origin'', branch]]"

text \<open>
  The interface \<open>Executor\<close>. Running a command or rescanning the repository acts on the
  outside world (the processes, the disk, the remote), the state \<open>'s\<close>; \<open>'fs\<close> is the
  filesystem handle \<open>afero.Afero\<close>.
\<close>

record ('s, 'fs) Executor =
  Execute :: "string \<Rightarrow> string \<Rightarrow> string list \<Rightarrow> 's \<Rightarrow> (string \<times> string option) \<times> 's"
  GenerateParentKustomize :: "'fs \<Rightarrow> string \<Rightarrow> 's \<Rightarrow> string option \<times> 's"

text \<open>The driver reads only the name of a component; its other fields stay abstract.\<close>

record Component =
  Name :: string

text \<open>
  What the driver calls but does not define. \<open>Generate\<close> and \<open>GenerateOverlays\<close> are the
  generators of package \<open>gitops\<close>; \<open>Join\<close> is \<open>filepath.Join\<close> and \<open>Quote\<close> the rendering of the
  verb \<open>%q\<close> of \<open>fmt.Errorf\<close>, both of the Go standard library. They are parameters of the
  model.
\<close>

record ('s, 'fs, 'c, 'b, 'env) Deps =
  Generate :: "'fs \<Rightarrow> string \<Rightarrow> string \<Rightarrow> 'c Component_scheme \<Rightarrow> 's \<Rightarrow> string option \<times> 's"
  GenerateOverlays :: "'fs \<Rightarrow> string \<Rightarrow> string \<Rightarrow> 'b Component_scheme \<Rightarrow> 'env \<Rightarrow> string \<Rightarrow> string
     \<Rightarrow> (string \<rightharpoonup> string list) \<Rightarrow> 's \<Rightarrow> string option \<times> 's"
  Join :: "string list \<Rightarrow> string"
  Quote :: "string \<Rightarrow> string"

text \<open>
  A run carries the state of the world and the list of the commands executed so far, in the
  order of execution (what the test double records in \<open>executedCmds\<close>).
\<close>

type_synonym 's run = "'s \<times> Execution list"

definition execute ::
  "('s, 'fs) Executor \<Rightarrow> string \<Rightarrow> string \<Rightarrow> string list \<Rightarrow> 's run \<Rightarrow> (string \<times> string option) \<times> 's run" where
  "execute e baseDir command args w =
     (case w of (s, executedCmds) \<Rightarrow>
        (case Execute e baseDir command args s of
           (r, s') \<Rightarrow>
             (r, (s', executedCmds @ [\<lparr>BaseDir = baseDir, Command = command, Args = args\<rparr>]))))"

definition call :: "('s \<Rightarrow> string option \<times> 's) \<Rightarrow> 's run \<Rightarrow> string option \<times> 's run" where
  "call f w = (case w of (s, executedCmds) \<Rightarrow> (case f s of (r, s') \<Rightarrow> (r, (s', executedCmds))))"

text \<open>
  \<open>andThen\<close> is the statement sequence of the source: a step that ended with
  \<open>return fmt.Errorf(...)\<close> ends the function, any other step is followed by the next one.
\<close>

definition andThen ::
  "string option \<times> 'w \<Rightarrow> ('w \<Rightarrow> string option \<times> 'w) \<Rightarrow> string option \<times> 'w" where
  "andThen r k = (case r of (Some err, w) \<Rightarrow> (Some err, w) | (None, w) \<Rightarrow> k w)"

definition CommitAndPush ::
  "('s, 'fs, 'c, 'b, 'env) Deps \<Rightarrow> string \<Rightarrow> string \<Rightarrow> string \<Rightarrow> string \<Rightarrow> ('s, 'fs) Executor
     \<Rightarrow> string \<Rightarrow> string \<Rightarrow> 's run \<Rightarrow> string option \<times> 's run" where
  "CommitAndPush D outputPath repoPathOverride remote componentName e branch commitMessage w0 =
     (let repoPath = (if repoPathOverride \<noteq> [] then Join D [outputPath, repoPathOverride]
                      else Join D [outputPath, componentName])
      in andThen
        (case execute e repoPath ''git'' [''add'', ''.''] w0 of
           ((out, Some err), w) \<Rightarrow>
             (Some (''failed to add files for component '' @ Quote D componentName
                    @ '' to repository in '' @ Quote D repoPath @ '' '' @ Quote D out
                    @ '': '' @ err), w)
         | ((out, None), w) \<Rightarrow> (None, w))
        (\<lambda>w1.
          (case execute e repoPath ''git'' [''--no-pager'', ''diff'', ''--cached''] w1 of
             ((out, Some err), w) \<Rightarrow>
               (Some (''failed to check git diff in repository '' @ Quote D repoPath @ '' ''
                      @ Quote D out @ '': '' @ err), w)
           | ((out, None), w2) \<Rightarrow>
               (if out \<noteq> [] then
                  andThen
                    (case execute e repoPath ''git'' [''commit'', ''-m'', commitMessage] w2 of
                       ((out, Some err), w) \<Rightarrow>
                         (Some (''failed to commit files to repository in '' @ Quote D repoPath
                                @ '' '' @ Quote D out @ '': '' @ err), w)
                     | ((out, None), w) \<Rightarrow> (None, w))
                    (\<lambda>w3.
                      (case execute e repoPath ''git'' [''push'', ''origin'', branch] w3 of
                         ((out, Some err), w) \<Rightarrow>
                           (Some (''failed push remote to repository '' @ Quote D remote
                                  @ '' '' @ Quote D out @ '': '' @ err), w)
                       | ((out, None), w) \<Rightarrow> (None, w)))
                else (None, w2)))))"

text \<open>
  The three operations that clone begin with the same two statements, written once here:
  \<open>git clone\<close> into a directory below \<open>outputPath\<close>, then \<open>git switch\<close>, and
  \<open>git checkout -b\<close> when the switch failed.
\<close>

definition checkoutBranch ::
  "('s, 'fs, 'c, 'b, 'env) Deps \<Rightarrow> ('s, 'fs) Executor \<Rightarrow> string \<Rightarrow> string \<Rightarrow> 's run
     \<Rightarrow> string option \<times> 's run" where
  "checkoutBranch D e repoPath branch w1 =
     (case execute e repoPath ''git'' [''switch'', branch] w1 of
        ((out0, Some err0), w2) \<Rightarrow>
          (case execute e repoPath ''git'' [''checkout'', ''-b'', branch] w2 of
             ((out, Some err), w) \<Rightarrow>
               (Some (''failed to checkout branch '' @ Quote D branch @ '' in ''
                      @ Quote D repoPath @ '' '' @ Quote D out @ '': '' @ err), w)
           | ((out, None), w) \<Rightarrow> (None, w))
      | ((out0, None), w2) \<Rightarrow> (None, w2))"

definition cloneRepository ::
  "('s, 'fs, 'c, 'b, 'env) Deps \<Rightarrow> ('s, 'fs) Executor \<Rightarrow> string \<Rightarrow> string \<Rightarrow> string \<Rightarrow> 's run
     \<Rightarrow> string option \<times> 's run" where
  "cloneRepository D e outputPath remote dir w0 =
     (case execute e outputPath ''git'' [''clone'', remote, dir] w0 of
        ((out, Some err), w) \<Rightarrow>
          (Some (''failed to clone git repository in '' @ Quote D outputPath @ '' ''
                 @ Quote D out @ '': '' @ err), w)
      | ((out, None), w) \<Rightarrow> (None, w))"

definition CloneGenerateAndPush ::
  "('s, 'fs, 'c, 'b, 'env) Deps \<Rightarrow> string \<Rightarrow> string \<Rightarrow> 'c Component_scheme \<Rightarrow> ('s, 'fs) Executor
     \<Rightarrow> 'fs \<Rightarrow> string \<Rightarrow> string \<Rightarrow> bool \<Rightarrow> 's run \<Rightarrow> string option \<times> 's run" where
  "CloneGenerateAndPush D outputPath remote component e appFs branch context doPush w0 =
     (let componentName = Name component;
          repoPath = Join D [outputPath, componentName];
          gitopsFolder = Join D [repoPath, context];
          componentPath = Join D [gitopsFolder, ''components'', componentName, ''base'']
      in andThen (cloneRepository D e outputPath remote componentName w0) (\<lambda>w1.
         andThen (checkoutBranch D e repoPath branch w1) (\<lambda>w2.
         andThen
           (case execute e repoPath ''rm''
                   [''-rf'', Join D [''components'', componentName, ''base'']] w2 of
              ((out, Some err), w) \<Rightarrow>
                (Some (''failed to delete ''
                       @ Quote D (Join D [''components'', componentName, ''base''])
                       @ '' folder in repository in '' @ Quote D repoPath @ '' ''
                       @ Quote D out @ '': '' @ err), w)
            | ((out, None), w) \<Rightarrow> (None, w)) (\<lambda>w3.
         andThen
           (case call (Generate D appFs gitopsFolder componentPath component) w3 of
              (Some err, w) \<Rightarrow>
                (Some (''failed to generate the gitops resources in '' @ Quote D componentPath
                       @ '' for component '' @ Quote D componentName @ '': '' @ err), w)
            | (None, w) \<Rightarrow> (None, w)) (\<lambda>w4.
         if doPush then
           CommitAndPush D outputPath [] remote componentName e branch
             (''Generate GitOps base resources for component '' @ componentName) w4
         else (None, w4))))))"

definition GenerateOverlaysAndPush ::
  "('s, 'fs, 'c, 'b, 'env) Deps \<Rightarrow> string \<Rightarrow> bool \<Rightarrow> string \<Rightarrow> 'b Component_scheme \<Rightarrow> 'env
     \<Rightarrow> string \<Rightarrow> string \<Rightarrow> string \<Rightarrow> string \<Rightarrow> ('s, 'fs) Executor \<Rightarrow> 'fs \<Rightarrow> string \<Rightarrow> string
     \<Rightarrow> bool \<Rightarrow> (string \<rightharpoonup> string list) \<Rightarrow> 's run \<Rightarrow> string option \<times> 's run" where
  "GenerateOverlaysAndPush D outputPath clone remote component environment applicationName
       environmentName imageName namespace e appFs branch context doPush
       componentGeneratedResources w0 =
     (let componentName = Name component;
          repoPath = Join D [outputPath, applicationName];
          gitopsFolder = Join D [repoPath, context];
          componentEnvOverlaysPath =
            Join D [gitopsFolder, ''components'', componentName, ''overlays'', environmentName]
      in andThen
           (if clone then
              andThen (cloneRepository D e outputPath remote applicationName w0)
                (\<lambda>w1. checkoutBranch D e repoPath branch w1)
            else (None, w0)) (\<lambda>w2.
         andThen
           (case call (GenerateOverlays D appFs gitopsFolder componentEnvOverlaysPath component
                         environment imageName namespace componentGeneratedResources) w2 of
              (Some err, w) \<Rightarrow>
                (Some (''failed to generate the gitops resources in overlays dir ''
                       @ Quote D componentEnvOverlaysPath @ '' for component ''
                       @ Quote D componentName @ '': '' @ err), w)
            | (None, w) \<Rightarrow> (None, w)) (\<lambda>w3.
         if doPush then
           CommitAndPush D outputPath applicationName remote componentName e branch
             (''Generate '' @ environmentName @ '' environment overlays for component ''
              @ componentName) w3
         else (None, w3))))"

definition RemoveAndPush ::
  "('s, 'fs, 'c, 'b, 'env) Deps \<Rightarrow> string \<Rightarrow> string \<Rightarrow> string \<Rightarrow> ('s, 'fs) Executor \<Rightarrow> 'fs
     \<Rightarrow> string \<Rightarrow> string \<Rightarrow> bool \<Rightarrow> 's run \<Rightarrow> string option \<times> 's run" where
  "RemoveAndPush D outputPath remote componentName e appFs branch context doPush w0 =
     (let repoPath = Join D [outputPath, componentName];
          gitopsFolder = Join D [repoPath, context];
          componentPath = Join D [gitopsFolder, ''components'', componentName]
      in andThen (cloneRepository D e outputPath remote componentName w0) (\<lambda>w1.
         andThen (checkoutBranch D e repoPath branch w1) (\<lambda>w2.
         andThen
           (case execute e repoPath ''rm'' [''-rf'', componentPath] w2 of
              ((out, Some err), w) \<Rightarrow>
                (Some (''failed to delete '' @ Quote D componentPath
                       @ '' folder in repository in '' @ Quote D repoPath @ '' ''
                       @ Quote D out @ '': '' @ err), w)
            | ((out, None), w) \<Rightarrow> (None, w)) (\<lambda>w3.
         andThen
           (case call (GenerateParentKustomize e appFs gitopsFolder) w3 of
              (Some err, w) \<Rightarrow>
                (Some (''failed to re-generate the gitops resources in '' @ Quote D componentPath
                       @ '' for component '' @ Quote D componentName @ '': '' @ err), w)
            | (None, w) \<Rightarrow> (None, w)) (\<lambda>w4.
         if doPush then
           CommitAndPush D outputPath [] remote componentName e branch
             (''Removed component '' @ componentName) w4
         else (None, w4))))))"

text \<open>
  A scripted executor for the concrete checks, like the test double of the repository: each
  command consumes the next scripted result (output and error); an exhausted script answers
  with empty output and no error. Rescanning succeeds and changes nothing.
\<close>

definition scripted :: "((string \<times> string option) list, unit) Executor" where
  "scripted = \<lparr>Execute = (\<lambda>baseDir command args s.
                   case s of [] \<Rightarrow> (([], None), []) | r # rs \<Rightarrow> (r, rs)),
               GenerateParentKustomize = (\<lambda>fs gitOpsFolder s. (None, s))\<rparr>"

text \<open>
  Dependencies for the concrete checks: generators that succeed and change nothing; a join
  with \<open>/\<close> and a quotation in double quotes, which is what \<open>filepath.Join\<close> and \<open>%q\<close> give
  on non-empty clean path elements and on printable ASCII text that contains neither a
  double quote nor a backslash.
\<close>

fun join_slash :: "string list \<Rightarrow> string" where
  "join_slash [] = []"
| "join_slash [x] = x"
| "join_slash (x # y # ys) = x @ ''/'' @ join_slash (y # ys)"

definition deps0 :: "((string \<times> string option) list, unit, unit, unit, unit) Deps" where
  "deps0 = \<lparr>Generate = (\<lambda>fs gitopsFolder componentPath component s. (None, s)),
            GenerateOverlays = (\<lambda>fs gitopsFolder outputFolder component environment imageName
                                  namespace componentGeneratedResources s. (None, s)),
            Join = join_slash,
            Quote = (\<lambda>s. [CHR 0x22] @ s @ [CHR 0x22])\<rparr>"

section \<open>Placement of the supplied resources (Generate)\<close>

text \<open>
  The bundle \<open>KubernetesResources\<close> of \<open>GeneratorOptions\<close>: the supplied Deployments,
  Services, Routes and Ingresses and the catch-all list \<open>Others\<close>. A manifest document is an
  opaque structured value, the type \<open>'doc\<close>.
\<close>

record 'doc KubernetesResources =
  Deployments :: "'doc list"
  Services :: "'doc list"
  Routes :: "'doc list"
  Ingresses :: "'doc list"
  Others :: "'doc list"

datatype kind = Deployment | Service | Route | Ingress | Other

text \<open>
  Modelled from the spec: \<open>Generate\<close> (pkg/generate.go) is not among the sources. The kinds
  Deployment, Service and Route have a fixed canonical file name; Ingresses and the entries of
  \<open>Others\<close> have none (section 4.1, step 5, and section 6).
\<close>

definition canonical_file :: "kind \<Rightarrow> string option" where
  "canonical_file k =
     (case k of Deployment \<Rightarrow> Some ''deployment.yaml'' | Service \<Rightarrow> Some ''service.yaml''
      | Route \<Rightarrow> Some ''route.yaml'' | Ingress \<Rightarrow> None | Other \<Rightarrow> None)"

text \<open>
  Modelled from the spec: the order in which \<open>Generate\<close>, which is not among the sources,
  discovers the supplied resources: Deployments, then Services, then Routes, then Ingresses,
  then Others (section 4.1, step 5).
\<close>

definition discovered :: "'doc KubernetesResources \<Rightarrow> (kind \<times> 'doc) list" where
  "discovered kr =
     map (Pair Deployment) (Deployments kr) @ map (Pair Service) (Services kr)
     @ map (Pair Route) (Routes kr) @ map (Pair Ingress) (Ingresses kr)
     @ map (Pair Other) (Others kr)"

text \<open>
  Modelled from the spec: the file placement rule of \<open>Generate\<close>, which is not among the
  sources (section 4.1, step 5). The state is the list of the canonical files with their
  document and the list of the documents of the aggregate. A discovered resource is the first
  instance of its kind when the kind has a canonical file and that file has no document yet:
  it becomes the document of the file. Every other resource is appended to the aggregate.
\<close>

fun place ::
  "(kind \<times> 'doc) list \<Rightarrow> (string \<times> 'doc) list \<times> 'doc list \<Rightarrow> (string \<times> 'doc) list \<times> 'doc list" where
  "place [] st = st"
| "place ((k, d) # rest) (files, others) =
     (case canonical_file k of
        None \<Rightarrow> place rest (files, others @ [d])
      | Some f \<Rightarrow>
          (if map_of files f = None then place rest (files @ [(f, d)], others)
           else place rest (files, others @ [d])))"

text \<open>
  Modelled from the spec: the documents of the aggregate file of \<open>Generate\<close>, which is not
  among the sources, in the order in which they are appended (section 4.1, step 5).
\<close>

definition aggregate_documents :: "'doc KubernetesResources \<Rightarrow> 'doc list" where
  "aggregate_documents kr = snd (place (discovered kr) ([], []))"

text \<open>
  Modelled from the spec: the content of the aggregate file of \<open>Generate\<close>, which is not among
  the sources: the encoded documents, each separated from the next by a line \<open>---\<close>
  (section 4.1, step 5).
\<close>

fun separate_documents :: "string list \<Rightarrow> string" where
  "separate_documents [] = []"
| "separate_documents [x] = x"
| "separate_documents (x # y # ys) = x @ ''---'' @ [CHR 0x0A] @ separate_documents (y # ys)"

text \<open>
  Modelled from the spec: the files that \<open>Generate\<close>, which is not among the sources, writes
  for the supplied resources, as pairs of file name and content (section 4.1, step 5, and
  section 6 for the names). \<open>marshal\<close> is the YAML encoder, an external collaborator. A kind
  without a supplied resource has no entry here: whether a default is synthesized for it is
  decided elsewhere. The aggregate file is written when there is a document for it.
\<close>

definition written_files :: "('doc \<Rightarrow> string) \<Rightarrow> 'doc KubernetesResources \<Rightarrow> (string \<times> string) list" where
  "written_files marshal kr =
     (case place (discovered kr) ([], []) of
        (files, others) \<Rightarrow>
          map (\<lambda>(f, d). (f, marshal d)) files
          @ (if others = [] then []
             else [(''other_resources.yaml'', separate_documents (map marshal others))]))"

text \<open>
  A bundle with two Deployments, two Services, two Routes, two Ingresses and one other
  resource.
\<close>

definition resources1 :: "string KubernetesResources" where
  "resources1 = \<lparr>Deployments = [''deployment1'', ''deployment2''],
     Services = [''service1'', ''service2''], Routes = [''route1'', ''route2''],
     Ingresses = [''ingress1'', ''ingress2''], Others = [''pod1'']\<rparr>"

definition component0 :: Component where
  "component0 = \<lparr>Name = ''test-component''\<rparr>"

text \<open>A manifest with unsorted content for the concrete checks below.\<close>

definition kustomization0 :: Kustomization where
  "kustomization0 = \<lparr>APIVersion = ''kustomize.config.k8s.io/v1beta1'', Kind = ''Kustomization'',
     Resources = [''z.yaml''], Bases = [''../y''], Patches = [], CommonLabels = Map.empty\<rparr>"

section \<open>Properties of the list helpers\<close>

lemma getPatchFiles_loop_eq: "getPatchFiles_loop files ps = files @ map Path ps"
  by (induction ps arbitrary: files) simp_all

lemma getPatchFiles_eq: "getPatchFiles ps = map Path ps"
  by (simp add: getPatchFiles_def getPatchFiles_loop_eq)

lemma addFilestoPatches_loop_eq:
  "addFilestoPatches_loop ps files = ps @ map (\<lambda>f. \<lparr>Path = f\<rparr>) files"
  by (induction files arbitrary: ps) simp_all

lemma addFilestoPatches_eq: "addFilestoPatches files = map (\<lambda>f. \<lparr>Path = f\<rparr>) files"
  by (simp add: addFilestoPatches_def addFilestoPatches_loop_eq)

lemma Patch_surjective: "\<lparr>Path = Path p\<rparr> = (p::Patch)"
  by (cases p) simp

lemma addFilestoPatches_getPatchFiles: "addFilestoPatches (getPatchFiles ps) = ps"
  by (induction ps) (simp_all add: getPatchFiles_eq addFilestoPatches_eq Patch_surjective)

lemma lookup_bool_upd: "lookup_bool (m(v \<mapsto> True)) w = (w = v \<or> lookup_bool m w)"
  by (simp add: lookup_bool_def)

lemma set_removeDuplicates_loop:
  "set (removeDuplicates_loop seen out s) = set out \<union> {v \<in> set s. \<not> lookup_bool seen v}"
proof (induction s arbitrary: seen out)
  case Nil
  show ?case by simp
next
  case (Cons v s)
  show ?case
  proof (cases "lookup_bool seen v")
    case True
    have step: "removeDuplicates_loop seen out (v # s) = removeDuplicates_loop seen out s"
      using True by simp
    have "{w \<in> set (v # s). \<not> lookup_bool seen w} = {w \<in> set s. \<not> lookup_bool seen w}"
      using True by auto
    then show ?thesis unfolding step Cons.IH by (simp only:)
  next
    case False
    have step: "removeDuplicates_loop seen out (v # s) =
                removeDuplicates_loop (seen(v \<mapsto> True)) (out @ [v]) s"
      using False by simp
    have "{w \<in> set s. \<not> lookup_bool (seen(v \<mapsto> True)) w} = {w \<in> set s. \<not> lookup_bool seen w} - {v}"
      unfolding lookup_bool_upd by blast
    moreover have "{w \<in> set (v # s). \<not> lookup_bool seen w} = insert v {w \<in> set s. \<not> lookup_bool seen w}"
      using False by auto
    moreover have "set (out @ [v]) = insert v (set out)" by simp
    ultimately show ?thesis unfolding step Cons.IH by blast
  qed
qed

lemma distinct_removeDuplicates_loop:
  "distinct out \<Longrightarrow> (\<forall>x \<in> set out. lookup_bool seen x) \<Longrightarrow> distinct (removeDuplicates_loop seen out s)"
proof (induction s arbitrary: seen out)
  case Nil
  then show ?case by simp
next
  case (Cons v s)
  show ?case
  proof (cases "lookup_bool seen v")
    case True
    then show ?thesis using Cons by simp
  next
    case False
    have step: "removeDuplicates_loop seen out (v # s) =
                removeDuplicates_loop (seen(v \<mapsto> True)) (out @ [v]) s"
      using False by simp
    from False Cons.prems have "v \<notin> set out" by blast
    with Cons.prems have "distinct (out @ [v])" "\<forall>x \<in> set (out @ [v]). lookup_bool (seen(v \<mapsto> True)) x"
      by (simp_all add: lookup_bool_upd)
    then show ?thesis unfolding step by (rule Cons.IH)
  qed
qed

lemma removeDuplicatesAndSort_eq:
  "removeDuplicatesAndSort s = sorted_list_of_set (set s)"
proof -
  let ?out = "removeDuplicates_loop Map.empty [] s"
  have st: "set ?out = set s" by (simp add: set_removeDuplicates_loop lookup_bool_def)
  have "distinct ?out" by (rule distinct_removeDuplicates_loop) simp_all
  then have rd: "remdups ?out = ?out" by (rule distinct_remdups_id)
  have "sorted_list_of_set (set ?out) = sort (remdups ?out)"
    by (rule sorted_list_of_set_sort_remdups)
  then have "sort ?out = sorted_list_of_set (set s)" unfolding rd st by (rule sym)
  then show ?thesis by (simp only: removeDuplicatesAndSort_def)
qed

lemma originalPatches_loop_dom:
  "dom (originalPatches_loop m original) = dom m \<union> set (map Path original)"
  by (induction original arbitrary: m) auto

lemma newGeneratedFiles_loop_eq:
  "newGeneratedFiles_loop m acc generated = acc @ filter (\<lambda>g. g \<notin> dom m) generated"
  by (induction generated arbitrary: acc) (auto split: option.splits)

section \<open>Adding resources, bases and patches\<close>

lemma Resources_AddResources:
  "Resources (AddResources k s) = sorted_list_of_set (set (Resources k) \<union> set s)"
  by (simp add: AddResources_def removeDuplicatesAndSort_eq)

lemma Bases_AddBases:
  "Bases (AddBases k s) = sorted_list_of_set (set (Bases k) \<union> set s)"
  by (simp add: AddBases_def removeDuplicatesAndSort_eq)

lemma Resources_foldl_AddResources:
  "Resources (foldl AddResources (AddResources k c) cs) =
     sorted_list_of_set (set (Resources k) \<union> set c \<union> \<Union> (set ` set cs))"
proof (induction cs arbitrary: k c)
  case Nil
  show ?case by (simp add: Resources_AddResources)
next
  case (Cons d cs)
  have "Resources (foldl AddResources (AddResources (AddResources k c) d) cs) =
        sorted_list_of_set (set (Resources (AddResources k c)) \<union> set d \<union> \<Union> (set ` set cs))"
    by (rule Cons.IH)
  moreover have "set (Resources (AddResources k c)) = set (Resources k) \<union> set c"
    by (simp add: Resources_AddResources)
  ultimately show ?case by (simp add: Un_assoc)
qed

lemma Bases_foldl_AddBases:
  "Bases (foldl AddBases (AddBases k c) cs) =
     sorted_list_of_set (set (Bases k) \<union> set c \<union> \<Union> (set ` set cs))"
proof (induction cs arbitrary: k c)
  case Nil
  show ?case by (simp add: Bases_AddBases)
next
  case (Cons d cs)
  have "Bases (foldl AddBases (AddBases (AddBases k c) d) cs) =
        sorted_list_of_set (set (Bases (AddBases k c)) \<union> set d \<union> \<Union> (set ` set cs))"
    by (rule Cons.IH)
  moreover have "set (Bases (AddBases k c)) = set (Bases k) \<union> set c"
    by (simp add: Bases_AddBases)
  ultimately show ?case by (simp add: Un_assoc)
qed

lemma AddResources_eq: "AddResources k s = k\<lparr>Resources := sorted_list_of_set (set (Resources k) \<union> set s)\<rparr>"
  by (simp add: AddResources_def removeDuplicatesAndSort_eq)

lemma AddBases_eq: "AddBases k s = k\<lparr>Bases := sorted_list_of_set (set (Bases k) \<union> set s)\<rparr>"
  by (simp add: AddBases_def removeDuplicatesAndSort_eq)

lemma AddResources_idem: "AddResources (AddResources k s) s = AddResources k s"
  by (simp add: AddResources_eq Un_assoc)

lemma AddResources_commute: "AddResources (AddResources k s) t = AddResources (AddResources k t) s"
  by (simp add: AddResources_eq Un_ac)

lemma AddBases_idem: "AddBases (AddBases k s) s = AddBases k s"
  by (simp add: AddBases_eq Un_assoc)

lemma AddBases_commute: "AddBases (AddBases k s) t = AddBases (AddBases k t) s"
  by (simp add: AddBases_eq Un_ac)

text \<open>
  Claim C1. The patch preservation merge sets \<open>Patches\<close> to the generated names that are not
  the path of an original patch, in generated order, followed by all original patches in their
  original order; nothing is sorted or deduplicated. Originals \<open>[A, B]\<close> merged with generated
  \<open>[B, C]\<close> give \<open>[C, A, B]\<close>.
\<close>

theorem patch_preservation_merge:
  "Patches (CompareDifferenceAndAddCustomPatches k original generated) =
     map (\<lambda>f. \<lparr>Path = f\<rparr>) (filter (\<lambda>g. g \<notin> set (map Path original)) generated) @ original
   \<and> Patches (CompareDifferenceAndAddCustomPatches k
         [\<lparr>Path = ''A''\<rparr>, \<lparr>Path = ''B''\<rparr>] [''B'', ''C'']) =
       [\<lparr>Path = ''C''\<rparr>, \<lparr>Path = ''A''\<rparr>, \<lparr>Path = ''B''\<rparr>]"
proof
  have "map (\<lambda>f. \<lparr>Path = f\<rparr>) (map Path original) = original"
    using addFilestoPatches_getPatchFiles [of original]
    by (simp only: getPatchFiles_eq addFilestoPatches_eq)
  then show "Patches (CompareDifferenceAndAddCustomPatches k original generated) =
     map (\<lambda>f. \<lparr>Path = f\<rparr>) (filter (\<lambda>g. g \<notin> set (map Path original)) generated) @ original"
    by (simp add: CompareDifferenceAndAddCustomPatches_def Let_def newGeneratedFiles_loop_eq
        originalPatches_loop_dom getPatchFiles_eq addFilestoPatches_eq)
next
  show "Patches (CompareDifferenceAndAddCustomPatches k
         [\<lparr>Path = ''A''\<rparr>, \<lparr>Path = ''B''\<rparr>] [''B'', ''C'']) =
       [\<lparr>Path = ''C''\<rparr>, \<lparr>Path = ''A''\<rparr>, \<lparr>Path = ''B''\<rparr>]"
    by (simp add: CompareDifferenceAndAddCustomPatches_def Let_def getPatchFiles_def
        addFilestoPatches_def)
qed

text \<open>
  Claim C2. After one or more calls of \<open>AddResources\<close> (of \<open>AddBases\<close>) the list
  \<open>Resources\<close> (\<open>Bases\<close>) is the sorted duplicate-free list of the set of paths held before
  together with all paths added. Two call sequences that add the same set of paths therefore
  end with the same list, whatever the order and the repetitions; a call is idempotent and two
  calls commute.
\<close>

theorem add_resources_bases_order_independent:
  "Resources (foldl AddResources k (c # cs)) =
     sorted_list_of_set (set (Resources k) \<union> \<Union> (set ` set (c # cs)))
   \<and> Bases (foldl AddBases k (c # cs)) =
     sorted_list_of_set (set (Bases k) \<union> \<Union> (set ` set (c # cs)))
   \<and> (\<Union> (set ` set (c # cs)) = \<Union> (set ` set (d # ds)) \<longrightarrow>
        Resources (foldl AddResources k (c # cs)) = Resources (foldl AddResources k (d # ds))
      \<and> Bases (foldl AddBases k (c # cs)) = Bases (foldl AddBases k (d # ds)))
   \<and> AddResources (AddResources k s) s = AddResources k s
   \<and> AddResources (AddResources k s) t = AddResources (AddResources k t) s
   \<and> AddBases (AddBases k s) s = AddBases k s
   \<and> AddBases (AddBases k s) t = AddBases (AddBases k t) s"
proof (intro conjI impI)
  show r: "Resources (foldl AddResources k (x # xs)) =
     sorted_list_of_set (set (Resources k) \<union> \<Union> (set ` set (x # xs)))" for x xs
    using Resources_foldl_AddResources [of k x xs] by (simp add: Un_assoc)
  show b: "Bases (foldl AddBases k (x # xs)) =
     sorted_list_of_set (set (Bases k) \<union> \<Union> (set ` set (x # xs)))" for x xs
    using Bases_foldl_AddBases [of k x xs] by (simp add: Un_assoc)
  assume same: "\<Union> (set ` set (c # cs)) = \<Union> (set ` set (d # ds))"
  show "Resources (foldl AddResources k (c # cs)) = Resources (foldl AddResources k (d # ds))"
    unfolding r same by (rule refl)
  show "Bases (foldl AddBases k (c # cs)) = Bases (foldl AddBases k (d # ds))"
    unfolding b same by (rule refl)
next
  show "AddResources (AddResources k s) s = AddResources k s"
    by (rule AddResources_idem)
  show "AddResources (AddResources k s) t = AddResources (AddResources k t) s"
    by (rule AddResources_commute)
  show "AddBases (AddBases k s) s = AddBases k s"
    by (rule AddBases_idem)
  show "AddBases (AddBases k s) t = AddBases (AddBases k t) s"
    by (rule AddBases_commute)
qed

theorem add_resources_bases_order_independent_witness:
  "\<Union> (set ` set ([''b.yaml'', ''a.yaml''] # [[''a.yaml'']])) =
     \<Union> (set ` set ([''a.yaml''] # [[''b.yaml''], [''b.yaml'']]))
   \<and> Resources (foldl AddResources kustomization0 ([''b.yaml'', ''a.yaml''] # [[''a.yaml'']])) =
         Resources (foldl AddResources kustomization0 ([''a.yaml''] # [[''b.yaml''], [''b.yaml'']]))
     \<and> Bases (foldl AddBases kustomization0 ([''b.yaml'', ''a.yaml''] # [[''a.yaml'']])) =
         Bases (foldl AddBases kustomization0 ([''a.yaml''] # [[''b.yaml''], [''b.yaml'']]))"
proof
  show h: "\<Union> (set ` set ([''b.yaml'', ''a.yaml''] # [[''a.yaml'']])) =
     \<Union> (set ` set ([''a.yaml''] # [[''b.yaml''], [''b.yaml'']]))"
    by (simp add: insert_commute)
  show "Resources (foldl AddResources kustomization0 ([''b.yaml'', ''a.yaml''] # [[''a.yaml'']])) =
         Resources (foldl AddResources kustomization0 ([''a.yaml''] # [[''b.yaml''], [''b.yaml'']]))
     \<and> Bases (foldl AddBases kustomization0 ([''b.yaml'', ''a.yaml''] # [[''a.yaml'']])) =
         Bases (foldl AddBases kustomization0 ([''a.yaml''] # [[''b.yaml''], [''b.yaml'']]))"
    by (rule add_resources_bases_order_independent
        [of kustomization0 "[''b.yaml'', ''a.yaml'']" "[[''a.yaml'']]" "[''a.yaml'']"
            "[[''b.yaml''], [''b.yaml'']]",
         THEN conjunct2, THEN conjunct2, THEN conjunct1, THEN mp, OF h])
qed

text \<open>
  Claim C9. \<open>AddPatches\<close> replaces \<open>Patches\<close> by the sorted duplicate-free list of the paths
  held before together with the added ones, so the order in which the existing patches were
  listed is lost: a manifest holding \<open>[b, a]\<close> holds \<open>[a, b]\<close> after a call that adds nothing.
\<close>

theorem add_patches_sorted_union:
  "Patches (AddPatches k s) =
     map (\<lambda>f. \<lparr>Path = f\<rparr>) (sorted_list_of_set (set (map Path (Patches k)) \<union> set s))
   \<and> Patches (AddPatches (k\<lparr>Patches := [\<lparr>Path = ''b''\<rparr>, \<lparr>Path = ''a''\<rparr>]\<rparr>) []) =
       [\<lparr>Path = ''a''\<rparr>, \<lparr>Path = ''b''\<rparr>]"
proof
  show "Patches (AddPatches k s) =
     map (\<lambda>f. \<lparr>Path = f\<rparr>) (sorted_list_of_set (set (map Path (Patches k)) \<union> set s))"
    by (simp add: AddPatches_def Let_def removeDuplicatesAndSort_eq getPatchFiles_eq
        addFilestoPatches_eq)
next
  show "Patches (AddPatches (k\<lparr>Patches := [\<lparr>Path = ''b''\<rparr>, \<lparr>Path = ''a''\<rparr>]\<rparr>) []) =
       [\<lparr>Path = ''a''\<rparr>, \<lparr>Path = ''b''\<rparr>]"
    by (simp add: AddPatches_def Let_def removeDuplicatesAndSort_def getPatchFiles_def
        addFilestoPatches_def lookup_bool_def)
qed

text \<open>
  Claim C10. Each of \<open>AddResources\<close>, \<open>AddBases\<close> and \<open>AddPatches\<close> changes its own field
  only: the other two lists, \<open>APIVersion\<close>, \<open>Kind\<close> and \<open>CommonLabels\<close> stay as they were.
\<close>

theorem add_frame:
  "Bases (AddResources k s) = Bases k \<and> Patches (AddResources k s) = Patches k
   \<and> APIVersion (AddResources k s) = APIVersion k \<and> Kind (AddResources k s) = Kind k
   \<and> CommonLabels (AddResources k s) = CommonLabels k
   \<and> Resources (AddBases k s) = Resources k \<and> Patches (AddBases k s) = Patches k
   \<and> APIVersion (AddBases k s) = APIVersion k \<and> Kind (AddBases k s) = Kind k
   \<and> CommonLabels (AddBases k s) = CommonLabels k
   \<and> Resources (AddPatches k s) = Resources k \<and> Bases (AddPatches k s) = Bases k
   \<and> APIVersion (AddPatches k s) = APIVersion k \<and> Kind (AddPatches k s) = Kind k
   \<and> CommonLabels (AddPatches k s) = CommonLabels k"
  by (simp add: AddResources_def AddBases_def AddPatches_def Let_def)

section \<open>Traces of the synchronisation driver\<close>

lemma andThen_Some: "andThen (Some err, w) k = (Some err, w)"
  by (simp add: andThen_def)

lemma andThen_None: "andThen (None, w) k = k w"
  by (simp add: andThen_def)

lemma execute_eq:
  "Execute e d c a s = ((out, r), s') \<Longrightarrow>
   execute e d c a (s, tr) = ((out, r), (s', tr @ [\<lparr>BaseDir = d, Command = c, Args = a\<rparr>]))"
  by (simp add: execute_def)

lemma CommitAndPush_run:
  assumes rp: "repoPath = (if repoPathOverride \<noteq> [] then Join D [outputPath, repoPathOverride]
                           else Join D [outputPath, componentName])"
  shows "\<exists>r s' new. (\<forall>tr. CommitAndPush D outputPath repoPathOverride remote componentName e branch
        commitMessage (s, tr) = (r, (s', tr @ new)))
     \<and> prefix new
          [\<lparr>BaseDir = repoPath, Command = ''git'', Args = [''add'', ''.'']\<rparr>,
           \<lparr>BaseDir = repoPath, Command = ''git'', Args = [''--no-pager'', ''diff'', ''--cached'']\<rparr>,
           \<lparr>BaseDir = repoPath, Command = ''git'', Args = [''commit'', ''-m'', commitMessage]\<rparr>,
           \<lparr>BaseDir = repoPath, Command = ''git'', Args = [''push'', ''origin'', branch]\<rparr>]"
proof -
  obtain o1 r1 s1 where a: "Execute e repoPath ''git'' [''add'', ''.''] s = ((o1, r1), s1)"
    by (metis prod.exhaust)
  obtain o2 r2 s2 where d: "Execute e repoPath ''git'' [''--no-pager'', ''diff'', ''--cached''] s1 = ((o2, r2), s2)"
    by (metis prod.exhaust)
  obtain o3 r3 s3 where c: "Execute e repoPath ''git'' [''commit'', ''-m'', commitMessage] s2 = ((o3, r3), s3)"
    by (metis prod.exhaust)
  obtain o4 r4 s4 where p: "Execute e repoPath ''git'' [''push'', ''origin'', branch] s3 = ((o4, r4), s4)"
    by (metis prod.exhaust)
  note def = CommitAndPush_def Let_def rp [symmetric] andThen_def
    execute_eq [OF a] execute_eq [OF d] execute_eq [OF c] execute_eq [OF p]
  show ?thesis
  proof (cases r1)
    case (Some e1)
    then show ?thesis by (simp add: def)
  next
    case None
    note r1 = this
    show ?thesis
    proof (cases r2)
      case (Some e2)
      then show ?thesis using r1 by (simp add: def)
    next
      case None
      note r2 = this
      show ?thesis
      proof (cases "o2 = []")
        case True
        then show ?thesis using r1 r2 by (simp add: def)
      next
        case False
        note o2 = this
        show ?thesis
        proof (cases r3)
          case (Some e3)
          then show ?thesis using r1 r2 o2 by (simp add: def)
        next
          case None
          then show ?thesis using r1 r2 o2 by (cases r4) (simp_all add: def)
        qed
      qed
    qed
  qed
qed


lemma cloneRepository_eq:
  "Execute e outputPath ''git'' [''clone'', remote, dir] s = ((out, r), s') \<Longrightarrow>
   cloneRepository D e outputPath remote dir (s, tr) =
     (case r of
        Some err \<Rightarrow> Some (''failed to clone git repository in '' @ Quote D outputPath @ '' ''
                          @ Quote D out @ '': '' @ err)
      | None \<Rightarrow> None,
      (s', tr @ [\<lparr>BaseDir = outputPath, Command = ''git'', Args = [''clone'', remote, dir]\<rparr>]))"
  by (cases r) (simp_all add: cloneRepository_def execute_eq)

lemma checkoutBranch_switched:
  "Execute e repoPath ''git'' [''switch'', branch] s = ((out, None), s') \<Longrightarrow>
   checkoutBranch D e repoPath branch (s, tr) =
     (None, (s', tr @ [\<lparr>BaseDir = repoPath, Command = ''git'', Args = [''switch'', branch]\<rparr>]))"
  by (simp add: checkoutBranch_def execute_eq)

lemma checkoutBranch_fallback:
  "Execute e repoPath ''git'' [''switch'', branch] s = ((out0, Some err0), s') \<Longrightarrow>
   Execute e repoPath ''git'' [''checkout'', ''-b'', branch] s' = ((out, r), s'') \<Longrightarrow>
   checkoutBranch D e repoPath branch (s, tr) =
     (case r of
        Some err \<Rightarrow> Some (''failed to checkout branch '' @ Quote D branch @ '' in ''
                          @ Quote D repoPath @ '' '' @ Quote D out @ '': '' @ err)
      | None \<Rightarrow> None,
      (s'', tr @ [\<lparr>BaseDir = repoPath, Command = ''git'', Args = [''switch'', branch]\<rparr>,
                  \<lparr>BaseDir = repoPath, Command = ''git'', Args = [''checkout'', ''-b'', branch]\<rparr>]))"
  by (cases r) (simp_all add: checkoutBranch_def execute_eq)

lemma CloneGenerateAndPush_tail:
  assumes cl: "cloneRepository D e outputPath remote (Name component) w0 = (None, w1)"
    and co: "checkoutBranch D e repoPath branch w1 = (None, (s2, tr2))"
    and rp: "repoPath = Join D [outputPath, Name component]"
    and msg: "msg = ''Generate GitOps base resources for component '' @ Name component"
  shows "\<exists>r s' new. CloneGenerateAndPush D outputPath remote component e appFs branch context doPush w0
           = (r, (s', tr2 @ new))
     \<and> prefix new
          [\<lparr>BaseDir = repoPath, Command = ''rm'',
            Args = [''-rf'', Join D [''components'', Name component, ''base'']]\<rparr>,
           \<lparr>BaseDir = repoPath, Command = ''git'', Args = [''add'', ''.'']\<rparr>,
           \<lparr>BaseDir = repoPath, Command = ''git'', Args = [''--no-pager'', ''diff'', ''--cached'']\<rparr>,
           \<lparr>BaseDir = repoPath, Command = ''git'', Args = [''commit'', ''-m'', msg]\<rparr>,
           \<lparr>BaseDir = repoPath, Command = ''git'', Args = [''push'', ''origin'', branch]\<rparr>]"
proof -
  obtain o4 r4 s4 where rm: "Execute e repoPath ''rm''
      [''-rf'', Join D [''components'', Name component, ''base'']] s2 = ((o4, r4), s4)"
    by (metis prod.exhaust)
  obtain r5 s5 where gen: "Generate D appFs (Join D [repoPath, context])
      (Join D [Join D [repoPath, context], ''components'', Name component, ''base'']) component s4
      = (r5, s5)"
    by (metis prod.exhaust)
  have "repoPath = (if [] \<noteq> ([]::string) then Join D [outputPath, []]
                    else Join D [outputPath, Name component])"
    using rp by simp
  from CommitAndPush_run [OF this]
  obtain r6 s6 new6 where
    cap: "\<And>tr. CommitAndPush D outputPath [] remote (Name component) e branch msg (s5, tr)
        = (r6, (s6, tr @ new6))"
    and pre: "prefix new6
          [\<lparr>BaseDir = repoPath, Command = ''git'', Args = [''add'', ''.'']\<rparr>,
           \<lparr>BaseDir = repoPath, Command = ''git'', Args = [''--no-pager'', ''diff'', ''--cached'']\<rparr>,
           \<lparr>BaseDir = repoPath, Command = ''git'', Args = [''commit'', ''-m'', msg]\<rparr>,
           \<lparr>BaseDir = repoPath, Command = ''git'', Args = [''push'', ''origin'', branch]\<rparr>]"
    by blast
  have cg: "call (Generate D appFs (Join D [repoPath, context])
      (Join D [Join D [repoPath, context], ''components'', Name component, ''base'']) component)
      (s4, tr) = (r5, (s5, tr))" for tr
    using gen by (simp add: call_def)
  note def = cl co andThen_None andThen_Some execute_eq [OF rm] cg cap
  show ?thesis
    unfolding CloneGenerateAndPush_def Let_def msg [symmetric] rp [symmetric]
    using pre by (cases r4; cases r5; cases doPush) (simp_all add: def)
qed


lemma prefix_distinct: "prefix xs ys \<Longrightarrow> distinct ys \<Longrightarrow> distinct xs"
  by (auto simp: prefix_def)

lemma distinct_count_once: "distinct xs \<Longrightarrow> x \<in> set xs \<Longrightarrow> count_list xs x = 1"
  by (induction xs) auto

lemma prefix_count_once:
  assumes "prefix xs ys" and "distinct ys" and "x \<in> set xs"
  shows "count_list xs x = 1"
proof -
  from assms(1,2) have "distinct xs" by (rule prefix_distinct)
  then show ?thesis using assms(3) by (rule distinct_count_once)
qed

lemma CloneGenerateAndPush_run:
  assumes clone: "Execute e outputPath ''git'' [''clone'', remote, Name component] s = ((o1, r1), s1)"
    and switch: "Execute e repoPath ''git'' [''switch'', branch] s1 = ((o2, r2), s2)"
    and checkout: "Execute e repoPath ''git'' [''checkout'', ''-b'', branch] s2 = ((o3, r3), s3)"
    and rp: "repoPath = Join D [outputPath, Name component]"
    and msg: "msg = ''Generate GitOps base resources for component '' @ Name component"
  shows "\<exists>r s' new. CloneGenerateAndPush D outputPath remote component e appFs branch context doPush
            (s, []) = (r, (s', new))
     \<and> prefix new (git outputPath [''clone'', remote, Name component] # git repoPath [''switch'', branch]
          # (if r2 = None then [] else [git repoPath [''checkout'', ''-b'', branch]])
          @ rm_rf repoPath (Join D [''components'', Name component, ''base''])
          # commit_push_cmds repoPath msg branch)
     \<and> (r1 = None \<longrightarrow> r2 \<noteq> None \<longrightarrow>
          prefix [git outputPath [''clone'', remote, Name component], git repoPath [''switch'', branch],
                  git repoPath [''checkout'', ''-b'', branch]] new)"
proof (cases r1)
  case (Some e1)
  then show ?thesis
    unfolding CloneGenerateAndPush_def Let_def
    by (simp add: cloneRepository_eq [OF clone] andThen_Some)
next
  case None
  note r1 = this
  have cl: "cloneRepository D e outputPath remote (Name component) (s, []) =
      (None, (s1, [git outputPath [''clone'', remote, Name component]]))"
    using r1 by (simp add: cloneRepository_eq [OF clone])
  show ?thesis
  proof (cases r2)
    case None
    have co: "checkoutBranch D e repoPath branch (s1, [git outputPath [''clone'', remote, Name component]])
        = (None, (s2, [git outputPath [''clone'', remote, Name component], git repoPath [''switch'', branch]]))"
      using switch None by (simp add: checkoutBranch_switched)
    from CloneGenerateAndPush_tail [OF cl co rp msg, of appFs "context" doPush]
    show ?thesis using r1 None by auto
  next
    case (Some e2)
    note r2 = this
    show ?thesis
    proof (cases r3)
      case (Some e3)
      have "checkoutBranch D e repoPath branch (s1, [git outputPath [''clone'', remote, Name component]])
        = (Some (''failed to checkout branch '' @ Quote D branch @ '' in ''
                          @ Quote D repoPath @ '' '' @ Quote D o3 @ '': '' @ e3),
           (s3, [git outputPath [''clone'', remote, Name component], git repoPath [''switch'', branch],
                 git repoPath [''checkout'', ''-b'', branch]]))"
        using switch checkout r2 Some by (simp add: checkoutBranch_fallback)
      then show ?thesis
        unfolding CloneGenerateAndPush_def Let_def rp [symmetric]
        using r1 r2 by (simp add: cl andThen_Some andThen_None)
    next
      case None
      have co: "checkoutBranch D e repoPath branch (s1, [git outputPath [''clone'', remote, Name component]])
        = (None, (s3, [git outputPath [''clone'', remote, Name component], git repoPath [''switch'', branch],
                 git repoPath [''checkout'', ''-b'', branch]]))"
        using switch checkout r2 None by (simp add: checkoutBranch_fallback)
      from CloneGenerateAndPush_tail [OF cl co rp msg, of appFs "context" doPush]
      show ?thesis using r1 r2 None by auto
    qed
  qed
qed

lemma RemoveAndPush_tail:
  assumes cl: "cloneRepository D e outputPath remote componentName w0 = (None, w1)"
    and co: "checkoutBranch D e repoPath branch w1 = (None, (s2, tr2))"
    and rp: "repoPath = Join D [outputPath, componentName]"
    and msg: "msg = ''Removed component '' @ componentName"
  shows "\<exists>r s' new. RemoveAndPush D outputPath remote componentName e appFs branch context doPush w0
           = (r, (s', tr2 @ new))
     \<and> prefix new
          (rm_rf repoPath (Join D [Join D [repoPath, context], ''components'', componentName])
           # commit_push_cmds repoPath msg branch)"
proof -
  obtain o4 r4 s4 where rm: "Execute e repoPath ''rm''
      [''-rf'', Join D [Join D [repoPath, context], ''components'', componentName]] s2 = ((o4, r4), s4)"
    by (metis prod.exhaust)
  obtain r5 s5 where gen: "GenerateParentKustomize e appFs (Join D [repoPath, context]) s4 = (r5, s5)"
    by (metis prod.exhaust)
  have "repoPath = (if [] \<noteq> ([]::string) then Join D [outputPath, []]
                    else Join D [outputPath, componentName])"
    using rp by simp
  from CommitAndPush_run [OF this]
  obtain r6 s6 new6 where
    cap: "\<And>tr. CommitAndPush D outputPath [] remote componentName e branch msg (s5, tr)
        = (r6, (s6, tr @ new6))"
    and pre: "prefix new6 (commit_push_cmds repoPath msg branch)"
    by blast
  have cg: "call (GenerateParentKustomize e appFs (Join D [repoPath, context])) (s4, tr) = (r5, (s5, tr))" for tr
    using gen by (simp add: call_def)
  note def = cl co andThen_None andThen_Some execute_eq [OF rm] cg cap
  show ?thesis
    unfolding RemoveAndPush_def Let_def msg [symmetric] rp [symmetric]
    using pre by (cases r4; cases r5; cases doPush) (simp_all add: def)
qed

lemma RemoveAndPush_run:
  assumes clone: "Execute e outputPath ''git'' [''clone'', remote, componentName] s = ((o1, r1), s1)"
    and switch: "Execute e repoPath ''git'' [''switch'', branch] s1 = ((o2, r2), s2)"
    and checkout: "Execute e repoPath ''git'' [''checkout'', ''-b'', branch] s2 = ((o3, r3), s3)"
    and rp: "repoPath = Join D [outputPath, componentName]"
    and msg: "msg = ''Removed component '' @ componentName"
  shows "\<exists>r s' new. RemoveAndPush D outputPath remote componentName e appFs branch context doPush
            (s, []) = (r, (s', new))
     \<and> prefix new (git outputPath [''clone'', remote, componentName] # git repoPath [''switch'', branch]
          # (if r2 = None then [] else [git repoPath [''checkout'', ''-b'', branch]])
          @ rm_rf repoPath (Join D [Join D [repoPath, context], ''components'', componentName])
          # commit_push_cmds repoPath msg branch)
     \<and> (r1 = None \<longrightarrow> r2 \<noteq> None \<longrightarrow>
          prefix [git outputPath [''clone'', remote, componentName], git repoPath [''switch'', branch],
                  git repoPath [''checkout'', ''-b'', branch]] new)"
proof (cases r1)
  case (Some e1)
  then show ?thesis
    unfolding RemoveAndPush_def Let_def
    by (simp add: cloneRepository_eq [OF clone] andThen_Some)
next
  case None
  note r1 = this
  have cl: "cloneRepository D e outputPath remote componentName (s, []) =
      (None, (s1, [git outputPath [''clone'', remote, componentName]]))"
    using r1 by (simp add: cloneRepository_eq [OF clone])
  show ?thesis
  proof (cases r2)
    case None
    have co: "checkoutBranch D e repoPath branch (s1, [git outputPath [''clone'', remote, componentName]])
        = (None, (s2, [git outputPath [''clone'', remote, componentName], git repoPath [''switch'', branch]]))"
      using switch None by (simp add: checkoutBranch_switched)
    from RemoveAndPush_tail [OF cl co rp msg, of appFs "context" doPush]
    show ?thesis using r1 None by auto
  next
    case (Some e2)
    note r2 = this
    show ?thesis
    proof (cases r3)
      case (Some e3)
      have "checkoutBranch D e repoPath branch (s1, [git outputPath [''clone'', remote, componentName]])
        = (Some (''failed to checkout branch '' @ Quote D branch @ '' in ''
                          @ Quote D repoPath @ '' '' @ Quote D o3 @ '': '' @ e3),
           (s3, [git outputPath [''clone'', remote, componentName], git repoPath [''switch'', branch],
                 git repoPath [''checkout'', ''-b'', branch]]))"
        using switch checkout r2 Some by (simp add: checkoutBranch_fallback)
      then show ?thesis
        unfolding RemoveAndPush_def Let_def rp [symmetric]
        using r1 r2 by (simp add: cl andThen_Some andThen_None)
    next
      case None
      have co: "checkoutBranch D e repoPath branch (s1, [git outputPath [''clone'', remote, componentName]])
        = (None, (s3, [git outputPath [''clone'', remote, componentName], git repoPath [''switch'', branch],
                 git repoPath [''checkout'', ''-b'', branch]]))"
        using switch checkout r2 None by (simp add: checkoutBranch_fallback)
      from RemoveAndPush_tail [OF cl co rp msg, of appFs "context" doPush]
      show ?thesis using r1 r2 None by auto
    qed
  qed
qed

lemma GenerateOverlaysAndPush_tail:
  assumes pre: "(if clone then andThen (cloneRepository D e outputPath remote applicationName w0)
                    (checkoutBranch D e repoPath branch) else (None, w0)) = (None, (s2, tr2))"
    and rp: "repoPath = Join D [outputPath, applicationName]"
    and cp: "commitPath = (if applicationName \<noteq> [] then Join D [outputPath, applicationName]
                           else Join D [outputPath, Name component])"
    and msg: "msg = ''Generate '' @ environmentName @ '' environment overlays for component ''
                    @ Name component"
  shows "\<exists>r s' new. GenerateOverlaysAndPush D outputPath clone remote component environment
           applicationName environmentName imageName namespace e appFs branch context doPush
           componentGeneratedResources w0 = (r, (s', tr2 @ new))
     \<and> prefix new (commit_push_cmds commitPath msg branch)"
proof -
  obtain r5 s5 where gen: "GenerateOverlays D appFs (Join D [repoPath, context])
      (Join D [Join D [repoPath, context], ''components'', Name component, ''overlays'', environmentName])
      component environment imageName namespace componentGeneratedResources s2 = (r5, s5)"
    by (metis prod.exhaust)
  from CommitAndPush_run [OF cp]
  obtain r6 s6 new6 where
    cap: "\<And>tr. CommitAndPush D outputPath applicationName remote (Name component) e branch msg (s5, tr)
        = (r6, (s6, tr @ new6))"
    and pre6: "prefix new6 (commit_push_cmds commitPath msg branch)"
    by blast
  have cg: "call (GenerateOverlays D appFs (Join D [repoPath, context])
      (Join D [Join D [repoPath, context], ''components'', Name component, ''overlays'', environmentName])
      component environment imageName namespace componentGeneratedResources) (s2, tr) = (r5, (s5, tr))" for tr
    using gen by (simp add: call_def)
  note def = pre andThen_None andThen_Some cg cap
  show ?thesis
    unfolding GenerateOverlaysAndPush_def Let_def msg [symmetric] rp [symmetric]
    using pre6 by (cases r5; cases doPush) (simp_all add: def)
qed

lemma GenerateOverlaysAndPush_run:
  assumes clone: "Execute e outputPath ''git'' [''clone'', remote, applicationName] s = ((o1, r1), s1)"
    and switch: "Execute e repoPath ''git'' [''switch'', branch] s1 = ((o2, r2), s2)"
    and checkout: "Execute e repoPath ''git'' [''checkout'', ''-b'', branch] s2 = ((o3, r3), s3)"
    and rp: "repoPath = Join D [outputPath, applicationName]"
    and cp: "commitPath = (if applicationName \<noteq> [] then Join D [outputPath, applicationName]
                           else Join D [outputPath, Name component])"
    and msg: "msg = ''Generate '' @ environmentName @ '' environment overlays for component ''
                    @ Name component"
  shows "\<exists>r s' new. GenerateOverlaysAndPush D outputPath True remote component environment
           applicationName environmentName imageName namespace e appFs branch context doPush
           componentGeneratedResources (s, []) = (r, (s', new))
     \<and> prefix new (git outputPath [''clone'', remote, applicationName] # git repoPath [''switch'', branch]
          # (if r2 = None then [] else [git repoPath [''checkout'', ''-b'', branch]])
          @ commit_push_cmds commitPath msg branch)
     \<and> (r1 = None \<longrightarrow> r2 \<noteq> None \<longrightarrow>
          prefix [git outputPath [''clone'', remote, applicationName], git repoPath [''switch'', branch],
                  git repoPath [''checkout'', ''-b'', branch]] new)"
proof (cases r1)
  case (Some e1)
  then show ?thesis
    unfolding GenerateOverlaysAndPush_def Let_def
    by (simp add: cloneRepository_eq [OF clone] andThen_Some)
next
  case None
  note r1 = this
  have cl: "cloneRepository D e outputPath remote applicationName (s, []) =
      (None, (s1, [git outputPath [''clone'', remote, applicationName]]))"
    using r1 by (simp add: cloneRepository_eq [OF clone])
  show ?thesis
  proof (cases r2)
    case None
    have co: "checkoutBranch D e repoPath branch (s1, [git outputPath [''clone'', remote, applicationName]])
        = (None, (s2, [git outputPath [''clone'', remote, applicationName], git repoPath [''switch'', branch]]))"
      using switch None by (simp add: checkoutBranch_switched)
    have "(if True then andThen (cloneRepository D e outputPath remote applicationName (s, []))
                    (checkoutBranch D e repoPath branch) else (None, (s, [])))
          = (None, (s2, [git outputPath [''clone'', remote, applicationName], git repoPath [''switch'', branch]]))"
      by (simp add: cl co andThen_None)
    from GenerateOverlaysAndPush_tail [OF this rp cp msg, of environment imageName namespace appFs
        "context" doPush componentGeneratedResources]
    show ?thesis using r1 None by auto
  next
    case (Some e2)
    note r2 = this
    show ?thesis
    proof (cases r3)
      case (Some e3)
      have "checkoutBranch D e repoPath branch (s1, [git outputPath [''clone'', remote, applicationName]])
        = (Some (''failed to checkout branch '' @ Quote D branch @ '' in ''
                          @ Quote D repoPath @ '' '' @ Quote D o3 @ '': '' @ e3),
           (s3, [git outputPath [''clone'', remote, applicationName], git repoPath [''switch'', branch],
                 git repoPath [''checkout'', ''-b'', branch]]))"
        using switch checkout r2 Some by (simp add: checkoutBranch_fallback)
      then show ?thesis
        unfolding GenerateOverlaysAndPush_def Let_def rp [symmetric]
        using r1 r2 by (simp add: cl andThen_Some andThen_None)
    next
      case None
      have co: "checkoutBranch D e repoPath branch (s1, [git outputPath [''clone'', remote, applicationName]])
        = (None, (s3, [git outputPath [''clone'', remote, applicationName], git repoPath [''switch'', branch],
                 git repoPath [''checkout'', ''-b'', branch]]))"
        using switch checkout r2 None by (simp add: checkoutBranch_fallback)
      have "(if True then andThen (cloneRepository D e outputPath remote applicationName (s, []))
                    (checkoutBranch D e repoPath branch) else (None, (s, [])))
          = (None, (s3, [git outputPath [''clone'', remote, applicationName], git repoPath [''switch'', branch],
                 git repoPath [''checkout'', ''-b'', branch]]))"
        by (simp add: cl co andThen_None)
      from GenerateOverlaysAndPush_tail [OF this rp cp msg, of environment imageName namespace appFs
          "context" doPush componentGeneratedResources]
      show ?thesis using r1 r2 None by auto
    qed
  qed
qed

lemma GenerateOverlaysAndPush_run_noclone:
  assumes cp: "commitPath = (if applicationName \<noteq> [] then Join D [outputPath, applicationName]
                           else Join D [outputPath, Name component])"
    and msg: "msg = ''Generate '' @ environmentName @ '' environment overlays for component ''
                    @ Name component"
  shows "\<exists>r s' new. GenerateOverlaysAndPush D outputPath False remote component environment
           applicationName environmentName imageName namespace e appFs branch context doPush
           componentGeneratedResources (s, []) = (r, (s', new))
     \<and> prefix new (commit_push_cmds commitPath msg branch)"
proof -
  have "(if False then andThen (cloneRepository D e outputPath remote applicationName (s, []))
                    (checkoutBranch D e (Join D [outputPath, applicationName]) branch) else (None, (s, [])))
          = (None, (s, []))"
    by simp
  from GenerateOverlaysAndPush_tail [OF this refl cp msg, of environment imageName namespace appFs
          "context" doPush componentGeneratedResources]
  show ?thesis by simp
qed

lemma sync_cmds_distinct:
  "distinct (git outputPath [''clone'', remote, dir] # git repoPath [''switch'', branch]
          # (if r2 = None then [] else [git repoPath [''checkout'', ''-b'', branch]])
          @ rm_rf repoPath path # commit_push_cmds commitPath msg branch)"
  by simp

lemma sync_cmds_distinct_overlays:
  "distinct (git outputPath [''clone'', remote, dir] # git repoPath [''switch'', branch]
          # (if r2 = None then [] else [git repoPath [''checkout'', ''-b'', branch]])
          @ commit_push_cmds commitPath msg branch)"
  by simp

lemma CloneGenerateAndPush_distinct:
  "distinct (snd (snd (CloneGenerateAndPush D outputPath remote component e appFs branch context doPush
      (s, []))))"
proof -
  obtain o1 r1 s1 where clone:
    "Execute e outputPath ''git'' [''clone'', remote, Name component] s = ((o1, r1), s1)"
    by (metis prod.exhaust)
  obtain o2 r2 s2 where switch:
    "Execute e (Join D [outputPath, Name component]) ''git'' [''switch'', branch] s1 = ((o2, r2), s2)"
    by (metis prod.exhaust)
  obtain o3 r3 s3 where checkout:
    "Execute e (Join D [outputPath, Name component]) ''git'' [''checkout'', ''-b'', branch] s2 = ((o3, r3), s3)"
    by (metis prod.exhaust)
  from CloneGenerateAndPush_run [OF clone switch checkout refl refl, of appFs "context" doPush]
  obtain r s' new where
    "CloneGenerateAndPush D outputPath remote component e appFs branch context doPush (s, []) = (r, (s', new))"
    and "distinct new"
    using prefix_distinct [OF _ sync_cmds_distinct] by blast
  then show ?thesis by simp
qed

lemma RemoveAndPush_distinct:
  "distinct (snd (snd (RemoveAndPush D outputPath remote componentName e appFs branch context doPush
      (s, []))))"
proof -
  obtain o1 r1 s1 where clone:
    "Execute e outputPath ''git'' [''clone'', remote, componentName] s = ((o1, r1), s1)"
    by (metis prod.exhaust)
  obtain o2 r2 s2 where switch:
    "Execute e (Join D [outputPath, componentName]) ''git'' [''switch'', branch] s1 = ((o2, r2), s2)"
    by (metis prod.exhaust)
  obtain o3 r3 s3 where checkout:
    "Execute e (Join D [outputPath, componentName]) ''git'' [''checkout'', ''-b'', branch] s2 = ((o3, r3), s3)"
    by (metis prod.exhaust)
  from RemoveAndPush_run [OF clone switch checkout refl refl, of appFs "context" doPush]
  obtain r s' new where
    "RemoveAndPush D outputPath remote componentName e appFs branch context doPush (s, []) = (r, (s', new))"
    and "distinct new"
    using prefix_distinct [OF _ sync_cmds_distinct] by blast
  then show ?thesis by simp
qed

lemma GenerateOverlaysAndPush_distinct:
  "distinct (snd (snd (GenerateOverlaysAndPush D outputPath clone remote component environment
           applicationName environmentName imageName namespace e appFs branch context doPush
           componentGeneratedResources (s, []))))"
proof (cases clone)
  case True
  obtain o1 r1 s1 where clone:
    "Execute e outputPath ''git'' [''clone'', remote, applicationName] s = ((o1, r1), s1)"
    by (metis prod.exhaust)
  obtain o2 r2 s2 where switch:
    "Execute e (Join D [outputPath, applicationName]) ''git'' [''switch'', branch] s1 = ((o2, r2), s2)"
    by (metis prod.exhaust)
  obtain o3 r3 s3 where checkout:
    "Execute e (Join D [outputPath, applicationName]) ''git'' [''checkout'', ''-b'', branch] s2 = ((o3, r3), s3)"
    by (metis prod.exhaust)
  from GenerateOverlaysAndPush_run [OF clone switch checkout refl refl refl,
      of component environment environmentName imageName namespace appFs "context" doPush
         componentGeneratedResources]
  obtain r s' new where
    "GenerateOverlaysAndPush D outputPath True remote component environment
           applicationName environmentName imageName namespace e appFs branch context doPush
           componentGeneratedResources (s, []) = (r, (s', new))"
    and "distinct new"
    using prefix_distinct [OF _ sync_cmds_distinct_overlays] by blast
  then show ?thesis using True by simp
next
  case False
  from GenerateOverlaysAndPush_run_noclone [OF refl refl,
      of D outputPath remote component environment applicationName environmentName imageName
         namespace e appFs branch "context" doPush componentGeneratedResources s]
  obtain r s' new where
    "GenerateOverlaysAndPush D outputPath False remote component environment
           applicationName environmentName imageName namespace e appFs branch context doPush
           componentGeneratedResources (s, []) = (r, (s', new))"
    and "prefix new (commit_push_cmds
           (if applicationName \<noteq> [] then Join D [outputPath, applicationName]
            else Join D [outputPath, Name component])
           (''Generate '' @ environmentName @ '' environment overlays for component '' @ Name component)
           branch)"
    by blast
  moreover have "distinct (commit_push_cmds
           (if applicationName \<noteq> [] then Join D [outputPath, applicationName]
            else Join D [outputPath, Name component])
           (''Generate '' @ environmentName @ '' environment overlays for component '' @ Name component)
           branch)"
    by simp
  ultimately have "distinct new" using prefix_distinct by blast
  then show ?thesis
    using False \<open>GenerateOverlaysAndPush D outputPath False remote component environment
           applicationName environmentName imageName namespace e appFs branch context doPush
           componentGeneratedResources (s, []) = (r, (s', new))\<close> by simp
qed

lemma CloneGenerateAndPush_clone_fails:
  "Execute e outputPath ''git'' [''clone'', remote, Name component] s = ((o1, Some e1), s1) \<Longrightarrow>
   CloneGenerateAndPush D outputPath remote component e appFs branch context doPush (s, []) =
     (Some (''failed to clone git repository in '' @ Quote D outputPath @ '' '' @ Quote D o1
            @ '': '' @ e1),
      (s1, [git outputPath [''clone'', remote, Name component]]))"
  unfolding CloneGenerateAndPush_def Let_def
  by (simp add: cloneRepository_eq andThen_Some)

lemma RemoveAndPush_clone_fails:
  "Execute e outputPath ''git'' [''clone'', remote, componentName] s = ((o1, Some e1), s1) \<Longrightarrow>
   RemoveAndPush D outputPath remote componentName e appFs branch context doPush (s, []) =
     (Some (''failed to clone git repository in '' @ Quote D outputPath @ '' '' @ Quote D o1
            @ '': '' @ e1),
      (s1, [git outputPath [''clone'', remote, componentName]]))"
  unfolding RemoveAndPush_def Let_def
  by (simp add: cloneRepository_eq andThen_Some)

lemma GenerateOverlaysAndPush_clone_fails:
  "Execute e outputPath ''git'' [''clone'', remote, applicationName] s = ((o1, Some e1), s1) \<Longrightarrow>
   GenerateOverlaysAndPush D outputPath True remote component environment
           applicationName environmentName imageName namespace e appFs branch context doPush
           componentGeneratedResources (s, []) =
     (Some (''failed to clone git repository in '' @ Quote D outputPath @ '' '' @ Quote D o1
            @ '': '' @ e1),
      (s1, [git outputPath [''clone'', remote, applicationName]]))"
  unfolding GenerateOverlaysAndPush_def Let_def
  by (simp add: cloneRepository_eq andThen_Some)

section \<open>Claims about the synchronisation driver\<close>

text \<open>
  Claim C3. When \<open>git add .\<close> succeeds and \<open>git --no-pager diff --cached\<close> succeeds with empty
  output, \<open>CommitAndPush\<close> returns no error and has executed these two commands only: neither
  \<open>git commit\<close> nor \<open>git push\<close> is run.
\<close>

theorem commit_and_push_no_changes:
  assumes "repoPath = (if repoPathOverride \<noteq> [] then Join D [outputPath, repoPathOverride]
                       else Join D [outputPath, componentName])"
    and "Execute e repoPath ''git'' [''add'', ''.''] s = ((out1, None), s1)"
    and "Execute e repoPath ''git'' [''--no-pager'', ''diff'', ''--cached''] s1 = (([], None), s2)"
  shows "CommitAndPush D outputPath repoPathOverride remote componentName e branch commitMessage
           (s, executedCmds) =
         (None, (s2, executedCmds @
            [git repoPath [''add'', ''.''], git repoPath [''--no-pager'', ''diff'', ''--cached'']]))"
  using assms by (simp add: CommitAndPush_def Let_def andThen_def execute_def)

theorem commit_and_push_no_changes_witness:
  "CommitAndPush deps0 ''/fake/path'' [] ''https://github.com/testing/testing.git''
       ''test-component'' scripted ''main'' ''Removed component test-component''
       ([(''test output1'', None), ([], None), (''test output3'', None)], []) =
   (None, ([(''test output3'', None)],
      [git ''/fake/path/test-component'' [''add'', ''.''],
       git ''/fake/path/test-component'' [''--no-pager'', ''diff'', ''--cached'']]))"
proof -
  have h1: "''/fake/path/test-component'' =
      (if [] \<noteq> ([]::string) then Join deps0 [''/fake/path'', []]
       else Join deps0 [''/fake/path'', ''test-component''])"
    by (simp add: deps0_def)
  have h2: "Execute scripted ''/fake/path/test-component'' ''git'' [''add'', ''.'']
      [(''test output1'', None), ([], None), (''test output3'', None)] =
      ((''test output1'', None), [([], None), (''test output3'', None)])"
    by (simp add: scripted_def)
  have h3: "Execute scripted ''/fake/path/test-component'' ''git'' [''--no-pager'', ''diff'', ''--cached'']
      [([], None), (''test output3'', None)] = (([], None), [(''test output3'', None)])"
    by (simp add: scripted_def)
  from commit_and_push_no_changes [OF h1 h2 h3, of "''https://github.com/testing/testing.git''"
      "''main''" "''Removed component test-component''" "[]"]
  show ?thesis by simp
qed

text \<open>
  Claim C8. When \<open>git clone\<close> fails, each of the three operations returns the clone error at
  once and the clone is the only command executed. In every call, whatever the executor
  answers, no command is executed twice: the list of executed commands has no repetition.
\<close>

theorem clone_failure_terminal_no_retry:
  "(Execute e outputPath ''git'' [''clone'', remote, Name component] s = ((o1, Some e1), s1) \<longrightarrow>
      CloneGenerateAndPush D outputPath remote component e appFs branch ctx doPush (s, []) =
        (Some (''failed to clone git repository in '' @ Quote D outputPath @ '' '' @ Quote D o1
               @ '': '' @ e1),
         (s1, [git outputPath [''clone'', remote, Name component]])))
   \<and> (Execute e outputPath ''git'' [''clone'', remote, applicationName] s = ((o1, Some e1), s1) \<longrightarrow>
      GenerateOverlaysAndPush D outputPath True remote bcomponent environment applicationName
          environmentName imageName namespace e appFs branch ctx doPush
          componentGeneratedResources (s, []) =
        (Some (''failed to clone git repository in '' @ Quote D outputPath @ '' '' @ Quote D o1
               @ '': '' @ e1),
         (s1, [git outputPath [''clone'', remote, applicationName]])))
   \<and> (Execute e outputPath ''git'' [''clone'', remote, componentName] s = ((o1, Some e1), s1) \<longrightarrow>
      RemoveAndPush D outputPath remote componentName e appFs branch ctx doPush (s, []) =
        (Some (''failed to clone git repository in '' @ Quote D outputPath @ '' '' @ Quote D o1
               @ '': '' @ e1),
         (s1, [git outputPath [''clone'', remote, componentName]])))
   \<and> distinct (snd (snd (CloneGenerateAndPush D outputPath remote component e appFs branch ctx
         doPush (s, []))))
   \<and> distinct (snd (snd (GenerateOverlaysAndPush D outputPath clone remote bcomponent environment
         applicationName environmentName imageName namespace e appFs branch ctx doPush
         componentGeneratedResources (s, []))))
   \<and> distinct (snd (snd (RemoveAndPush D outputPath remote componentName e appFs branch ctx
         doPush (s, []))))"
  using CloneGenerateAndPush_clone_fails [of e outputPath remote component s o1 e1 s1 D appFs branch
      ctx doPush]
    GenerateOverlaysAndPush_clone_fails [of e outputPath remote applicationName s o1 e1 s1 D
      bcomponent environment environmentName imageName namespace appFs branch ctx doPush
      componentGeneratedResources]
    RemoveAndPush_clone_fails [of e outputPath remote componentName s o1 e1 s1 D appFs branch
      ctx doPush]
    CloneGenerateAndPush_distinct [of D outputPath remote component e appFs branch ctx doPush s]
    GenerateOverlaysAndPush_distinct [of D outputPath clone remote bcomponent environment
      applicationName environmentName imageName namespace e appFs branch ctx doPush
      componentGeneratedResources s]
    RemoveAndPush_distinct [of D outputPath remote componentName e appFs branch ctx doPush s]
  by blast

theorem clone_failure_terminal_no_retry_witness:
  "CloneGenerateAndPush deps0 ''/fake/path'' ''https://github.com/testing/testing.git'' component0
       scripted () ''main'' ''gitops'' True ([(''test output1'', Some ''test error'')], []) =
     (Some (''failed to clone git repository in '' @ Quote deps0 ''/fake/path'' @ '' ''
            @ Quote deps0 ''test output1'' @ '': '' @ ''test error''),
      ([], [git ''/fake/path'' [''clone'', ''https://github.com/testing/testing.git'', Name component0]]))
   \<and> GenerateOverlaysAndPush deps0 ''/fake/path'' True ''https://github.com/testing/testing.git''
       component0 () ''test-application'' ''dev'' ''quay.io/test/test'' ''test-namespace'' scripted ()
       ''main'' ''gitops'' True Map.empty ([(''test output1'', Some ''test error'')], []) =
     (Some (''failed to clone git repository in '' @ Quote deps0 ''/fake/path'' @ '' ''
            @ Quote deps0 ''test output1'' @ '': '' @ ''test error''),
      ([], [git ''/fake/path'' [''clone'', ''https://github.com/testing/testing.git'', ''test-application'']]))
   \<and> RemoveAndPush deps0 ''/fake/path'' ''https://github.com/testing/testing.git'' ''test-component''
       scripted () ''main'' ''gitops'' True ([(''test output1'', Some ''test error'')], []) =
     (Some (''failed to clone git repository in '' @ Quote deps0 ''/fake/path'' @ '' ''
            @ Quote deps0 ''test output1'' @ '': '' @ ''test error''),
      ([], [git ''/fake/path'' [''clone'', ''https://github.com/testing/testing.git'', ''test-component'']]))"
proof -
  have h: "Execute scripted ''/fake/path'' ''git'' [''clone'', ''https://github.com/testing/testing.git'', d]
      [(''test output1'', Some ''test error'')] = ((''test output1'', Some ''test error''), [])" for d
    by (simp add: scripted_def)
  note t = clone_failure_terminal_no_retry [where e = scripted and D = deps0
      and outputPath = "''/fake/path''" and remote = "''https://github.com/testing/testing.git''"
      and component = component0 and bcomponent = component0 and componentName = "''test-component''"
      and applicationName = "''test-application''" and s = "[(''test output1'', Some ''test error'')]"
      and ?o1.0 = "''test output1''" and ?e1.0 = "''test error''" and ?s1.0 = "[]"
      and appFs = "()" and branch = "''main''" and ctx = "''gitops''" and doPush = True
      and environment = "()" and environmentName = "''dev''" and imageName = "''quay.io/test/test''"
      and namespace = "''test-namespace''" and componentGeneratedResources = Map.empty and clone = True]
  show ?thesis
    using t [THEN conjunct1, THEN mp, OF h]
      t [THEN conjunct2, THEN conjunct1, THEN mp, OF h]
      t [THEN conjunct2, THEN conjunct2, THEN conjunct1, THEN mp, OF h]
    by (intro conjI)
qed

lemma prefix_mem: "prefix xs ys \<Longrightarrow> x \<in> set xs \<Longrightarrow> x \<in> set ys"
  using set_mono_prefix by blast

lemma CloneGenerateAndPush_checkout_once:
  assumes clone: "Execute e outputPath ''git'' [''clone'', remote, Name component] s = ((o1, None), s1)"
    and switch: "Execute e repoPath ''git'' [''switch'', branch] s1 = ((o2, Some e2), s2)"
    and checkout: "Execute e repoPath ''git'' [''checkout'', ''-b'', branch] s2 = ((o3, r3), s3)"
    and rp: "repoPath = Join D [outputPath, Name component]"
  shows "count_list (snd (snd (CloneGenerateAndPush D outputPath remote component e appFs branch
            context doPush (s, [])))) (git repoPath [''checkout'', ''-b'', branch]) = 1"
proof -
  from CloneGenerateAndPush_run [OF clone switch checkout rp refl, of appFs "context" doPush]
  obtain r s' new where
    eq: "CloneGenerateAndPush D outputPath remote component e appFs branch context doPush (s, [])
          = (r, (s', new))"
    and p1: "prefix new (git outputPath [''clone'', remote, Name component] # git repoPath [''switch'', branch]
          # (if Some e2 = None then [] else [git repoPath [''checkout'', ''-b'', branch]])
          @ rm_rf repoPath (Join D [''components'', Name component, ''base''])
          # commit_push_cmds repoPath (''Generate GitOps base resources for component '' @ Name component) branch)"
    and p2: "prefix [git outputPath [''clone'', remote, Name component], git repoPath [''switch'', branch],
                  git repoPath [''checkout'', ''-b'', branch]] new"
    by blast
  have "git repoPath [''checkout'', ''-b'', branch] \<in> set new"
    by (rule prefix_mem [OF p2]) simp
  with prefix_count_once [OF p1 sync_cmds_distinct]
  have "count_list new (git repoPath [''checkout'', ''-b'', branch]) = 1" by blast
  then show ?thesis by (simp add: eq)
qed

lemma CloneGenerateAndPush_checkout_fails:
  assumes clone: "Execute e outputPath ''git'' [''clone'', remote, Name component] s = ((o1, None), s1)"
    and switch: "Execute e repoPath ''git'' [''switch'', branch] s1 = ((o2, Some e2), s2)"
    and checkout: "Execute e repoPath ''git'' [''checkout'', ''-b'', branch] s2 = ((o3, Some e3), s3)"
    and rp: "repoPath = Join D [outputPath, Name component]"
  shows "CloneGenerateAndPush D outputPath remote component e appFs branch context doPush (s, []) =
     (Some (''failed to checkout branch '' @ Quote D branch @ '' in '' @ Quote D repoPath @ '' ''
            @ Quote D o3 @ '': '' @ e3),
      (s3, [git outputPath [''clone'', remote, Name component], git repoPath [''switch'', branch],
            git repoPath [''checkout'', ''-b'', branch]]))"
  unfolding CloneGenerateAndPush_def Let_def rp [symmetric]
  by (simp add: cloneRepository_eq [OF clone] checkoutBranch_fallback [OF switch checkout]
      andThen_Some andThen_None)

lemma RemoveAndPush_checkout_once:
  assumes clone: "Execute e outputPath ''git'' [''clone'', remote, componentName] s = ((o1, None), s1)"
    and switch: "Execute e repoPath ''git'' [''switch'', branch] s1 = ((o2, Some e2), s2)"
    and checkout: "Execute e repoPath ''git'' [''checkout'', ''-b'', branch] s2 = ((o3, r3), s3)"
    and rp: "repoPath = Join D [outputPath, componentName]"
  shows "count_list (snd (snd (RemoveAndPush D outputPath remote componentName e appFs branch
            context doPush (s, [])))) (git repoPath [''checkout'', ''-b'', branch]) = 1"
proof -
  from RemoveAndPush_run [OF clone switch checkout rp refl, of appFs "context" doPush]
  obtain r s' new where
    eq: "RemoveAndPush D outputPath remote componentName e appFs branch context doPush (s, [])
          = (r, (s', new))"
    and p1: "prefix new (git outputPath [''clone'', remote, componentName] # git repoPath [''switch'', branch]
          # (if Some e2 = None then [] else [git repoPath [''checkout'', ''-b'', branch]])
          @ rm_rf repoPath (Join D [Join D [repoPath, context], ''components'', componentName])
          # commit_push_cmds repoPath (''Removed component '' @ componentName) branch)"
    and p2: "prefix [git outputPath [''clone'', remote, componentName], git repoPath [''switch'', branch],
                  git repoPath [''checkout'', ''-b'', branch]] new"
    by blast
  have "git repoPath [''checkout'', ''-b'', branch] \<in> set new"
    by (rule prefix_mem [OF p2]) simp
  with prefix_count_once [OF p1 sync_cmds_distinct]
  have "count_list new (git repoPath [''checkout'', ''-b'', branch]) = 1" by blast
  then show ?thesis by (simp add: eq)
qed

lemma RemoveAndPush_checkout_fails:
  assumes clone: "Execute e outputPath ''git'' [''clone'', remote, componentName] s = ((o1, None), s1)"
    and switch: "Execute e repoPath ''git'' [''switch'', branch] s1 = ((o2, Some e2), s2)"
    and checkout: "Execute e repoPath ''git'' [''checkout'', ''-b'', branch] s2 = ((o3, Some e3), s3)"
    and rp: "repoPath = Join D [outputPath, componentName]"
  shows "RemoveAndPush D outputPath remote componentName e appFs branch context doPush (s, []) =
     (Some (''failed to checkout branch '' @ Quote D branch @ '' in '' @ Quote D repoPath @ '' ''
            @ Quote D o3 @ '': '' @ e3),
      (s3, [git outputPath [''clone'', remote, componentName], git repoPath [''switch'', branch],
            git repoPath [''checkout'', ''-b'', branch]]))"
  unfolding RemoveAndPush_def Let_def rp [symmetric]
  by (simp add: cloneRepository_eq [OF clone] checkoutBranch_fallback [OF switch checkout]
      andThen_Some andThen_None)

lemma GenerateOverlaysAndPush_checkout_once:
  assumes clone: "Execute e outputPath ''git'' [''clone'', remote, applicationName] s = ((o1, None), s1)"
    and switch: "Execute e repoPath ''git'' [''switch'', branch] s1 = ((o2, Some e2), s2)"
    and checkout: "Execute e repoPath ''git'' [''checkout'', ''-b'', branch] s2 = ((o3, r3), s3)"
    and rp: "repoPath = Join D [outputPath, applicationName]"
  shows "count_list (snd (snd (GenerateOverlaysAndPush D outputPath True remote component environment
           applicationName environmentName imageName namespace e appFs branch context doPush
           componentGeneratedResources (s, [])))) (git repoPath [''checkout'', ''-b'', branch]) = 1"
proof -
  from GenerateOverlaysAndPush_run [OF clone switch checkout rp refl refl,
      of component environment environmentName imageName namespace appFs "context" doPush
         componentGeneratedResources]
  obtain r s' new where
    eq: "GenerateOverlaysAndPush D outputPath True remote component environment
           applicationName environmentName imageName namespace e appFs branch context doPush
           componentGeneratedResources (s, []) = (r, (s', new))"
    and p1: "prefix new (git outputPath [''clone'', remote, applicationName] # git repoPath [''switch'', branch]
          # (if Some e2 = None then [] else [git repoPath [''checkout'', ''-b'', branch]])
          @ commit_push_cmds (if applicationName \<noteq> [] then Join D [outputPath, applicationName]
                           else Join D [outputPath, Name component])
              (''Generate '' @ environmentName @ '' environment overlays for component ''
                    @ Name component) branch)"
    and p2: "prefix [git outputPath [''clone'', remote, applicationName], git repoPath [''switch'', branch],
                  git repoPath [''checkout'', ''-b'', branch]] new"
    by blast
  have "git repoPath [''checkout'', ''-b'', branch] \<in> set new"
    by (rule prefix_mem [OF p2]) simp
  with prefix_count_once [OF p1 sync_cmds_distinct_overlays]
  have "count_list new (git repoPath [''checkout'', ''-b'', branch]) = 1" by blast
  then show ?thesis by (simp add: eq)
qed

lemma GenerateOverlaysAndPush_checkout_fails:
  assumes clone: "Execute e outputPath ''git'' [''clone'', remote, applicationName] s = ((o1, None), s1)"
    and switch: "Execute e repoPath ''git'' [''switch'', branch] s1 = ((o2, Some e2), s2)"
    and checkout: "Execute e repoPath ''git'' [''checkout'', ''-b'', branch] s2 = ((o3, Some e3), s3)"
    and rp: "repoPath = Join D [outputPath, applicationName]"
  shows "GenerateOverlaysAndPush D outputPath True remote component environment
           applicationName environmentName imageName namespace e appFs branch context doPush
           componentGeneratedResources (s, []) =
     (Some (''failed to checkout branch '' @ Quote D branch @ '' in '' @ Quote D repoPath @ '' ''
            @ Quote D o3 @ '': '' @ e3),
      (s3, [git outputPath [''clone'', remote, applicationName], git repoPath [''switch'', branch],
            git repoPath [''checkout'', ''-b'', branch]]))"
  unfolding GenerateOverlaysAndPush_def Let_def rp [symmetric]
  by (simp add: cloneRepository_eq [OF clone] checkoutBranch_fallback [OF switch checkout]
      andThen_Some andThen_None)

text \<open>
  Claim C4. In \<open>CloneGenerateAndPush\<close>, in \<open>GenerateOverlaysAndPush\<close> with \<open>clone = true\<close> and
  in \<open>RemoveAndPush\<close>: when the clone succeeded and \<open>git switch branch\<close> failed, the command
  \<open>git checkout -b branch\<close> occurs exactly once among the executed commands, whatever happens
  afterwards; when it fails too, the call returns the error \<open>failed to checkout branch\<close>, which
  quotes the branch and the working directory of the repository, and the checkout is the last
  command executed.
\<close>

theorem checkout_fallback_once:
  "(Execute e outputPath ''git'' [''clone'', remote, Name component] s = ((o1, None), s1) \<longrightarrow>
    Execute e (Join D [outputPath, Name component]) ''git'' [''switch'', branch] s1 = ((o2, Some e2), s2) \<longrightarrow>
    Execute e (Join D [outputPath, Name component]) ''git'' [''checkout'', ''-b'', branch] s2 = ((o3, r3), s3) \<longrightarrow>
      count_list (snd (snd (CloneGenerateAndPush D outputPath remote component e appFs branch ctx
          doPush (s, [])))) (git (Join D [outputPath, Name component]) [''checkout'', ''-b'', branch]) = 1
      \<and> (\<forall>e3. r3 = Some e3 \<longrightarrow>
           CloneGenerateAndPush D outputPath remote component e appFs branch ctx doPush (s, []) =
             (Some (''failed to checkout branch '' @ Quote D branch @ '' in ''
                    @ Quote D (Join D [outputPath, Name component]) @ '' '' @ Quote D o3 @ '': '' @ e3),
              (s3, [git outputPath [''clone'', remote, Name component],
                    git (Join D [outputPath, Name component]) [''switch'', branch],
                    git (Join D [outputPath, Name component]) [''checkout'', ''-b'', branch]]))))
   \<and> (Execute e outputPath ''git'' [''clone'', remote, applicationName] s = ((o1, None), s1) \<longrightarrow>
    Execute e (Join D [outputPath, applicationName]) ''git'' [''switch'', branch] s1 = ((o2, Some e2), s2) \<longrightarrow>
    Execute e (Join D [outputPath, applicationName]) ''git'' [''checkout'', ''-b'', branch] s2 = ((o3, r3), s3) \<longrightarrow>
      count_list (snd (snd (GenerateOverlaysAndPush D outputPath True remote bcomponent environment
          applicationName environmentName imageName namespace e appFs branch ctx doPush
          componentGeneratedResources (s, []))))
        (git (Join D [outputPath, applicationName]) [''checkout'', ''-b'', branch]) = 1
      \<and> (\<forall>e3. r3 = Some e3 \<longrightarrow>
           GenerateOverlaysAndPush D outputPath True remote bcomponent environment
             applicationName environmentName imageName namespace e appFs branch ctx doPush
             componentGeneratedResources (s, []) =
             (Some (''failed to checkout branch '' @ Quote D branch @ '' in ''
                    @ Quote D (Join D [outputPath, applicationName]) @ '' '' @ Quote D o3 @ '': '' @ e3),
              (s3, [git outputPath [''clone'', remote, applicationName],
                    git (Join D [outputPath, applicationName]) [''switch'', branch],
                    git (Join D [outputPath, applicationName]) [''checkout'', ''-b'', branch]]))))
   \<and> (Execute e outputPath ''git'' [''clone'', remote, componentName] s = ((o1, None), s1) \<longrightarrow>
    Execute e (Join D [outputPath, componentName]) ''git'' [''switch'', branch] s1 = ((o2, Some e2), s2) \<longrightarrow>
    Execute e (Join D [outputPath, componentName]) ''git'' [''checkout'', ''-b'', branch] s2 = ((o3, r3), s3) \<longrightarrow>
      count_list (snd (snd (RemoveAndPush D outputPath remote componentName e appFs branch ctx
          doPush (s, [])))) (git (Join D [outputPath, componentName]) [''checkout'', ''-b'', branch]) = 1
      \<and> (\<forall>e3. r3 = Some e3 \<longrightarrow>
           RemoveAndPush D outputPath remote componentName e appFs branch ctx doPush (s, []) =
             (Some (''failed to checkout branch '' @ Quote D branch @ '' in ''
                    @ Quote D (Join D [outputPath, componentName]) @ '' '' @ Quote D o3 @ '': '' @ e3),
              (s3, [git outputPath [''clone'', remote, componentName],
                    git (Join D [outputPath, componentName]) [''switch'', branch],
                    git (Join D [outputPath, componentName]) [''checkout'', ''-b'', branch]]))))"
proof (intro conjI impI allI)
  assume clone: "Execute e outputPath ''git'' [''clone'', remote, Name component] s = ((o1, None), s1)"
    and switch: "Execute e (Join D [outputPath, Name component]) ''git'' [''switch'', branch] s1
        = ((o2, Some e2), s2)"
    and checkout: "Execute e (Join D [outputPath, Name component]) ''git'' [''checkout'', ''-b'', branch] s2
        = ((o3, r3), s3)"
  show "count_list (snd (snd (CloneGenerateAndPush D outputPath remote component e appFs branch ctx
          doPush (s, [])))) (git (Join D [outputPath, Name component]) [''checkout'', ''-b'', branch]) = 1"
    by (rule CloneGenerateAndPush_checkout_once [OF clone switch checkout refl])
  fix e3 assume "r3 = Some e3"
  with checkout show "CloneGenerateAndPush D outputPath remote component e appFs branch ctx doPush (s, []) =
             (Some (''failed to checkout branch '' @ Quote D branch @ '' in ''
                    @ Quote D (Join D [outputPath, Name component]) @ '' '' @ Quote D o3 @ '': '' @ e3),
              (s3, [git outputPath [''clone'', remote, Name component],
                    git (Join D [outputPath, Name component]) [''switch'', branch],
                    git (Join D [outputPath, Name component]) [''checkout'', ''-b'', branch]]))"
    using CloneGenerateAndPush_checkout_fails [OF clone switch _ refl] by blast
next
  assume clone: "Execute e outputPath ''git'' [''clone'', remote, applicationName] s = ((o1, None), s1)"
    and switch: "Execute e (Join D [outputPath, applicationName]) ''git'' [''switch'', branch] s1
        = ((o2, Some e2), s2)"
    and checkout: "Execute e (Join D [outputPath, applicationName]) ''git'' [''checkout'', ''-b'', branch] s2
        = ((o3, r3), s3)"
  show "count_list (snd (snd (GenerateOverlaysAndPush D outputPath True remote bcomponent environment
          applicationName environmentName imageName namespace e appFs branch ctx doPush
          componentGeneratedResources (s, []))))
        (git (Join D [outputPath, applicationName]) [''checkout'', ''-b'', branch]) = 1"
    by (rule GenerateOverlaysAndPush_checkout_once [OF clone switch checkout refl])
  fix e3 assume "r3 = Some e3"
  with checkout show "GenerateOverlaysAndPush D outputPath True remote bcomponent environment
             applicationName environmentName imageName namespace e appFs branch ctx doPush
             componentGeneratedResources (s, []) =
             (Some (''failed to checkout branch '' @ Quote D branch @ '' in ''
                    @ Quote D (Join D [outputPath, applicationName]) @ '' '' @ Quote D o3 @ '': '' @ e3),
              (s3, [git outputPath [''clone'', remote, applicationName],
                    git (Join D [outputPath, applicationName]) [''switch'', branch],
                    git (Join D [outputPath, applicationName]) [''checkout'', ''-b'', branch]]))"
    using GenerateOverlaysAndPush_checkout_fails [OF clone switch _ refl] by blast
next
  assume clone: "Execute e outputPath ''git'' [''clone'', remote, componentName] s = ((o1, None), s1)"
    and switch: "Execute e (Join D [outputPath, componentName]) ''git'' [''switch'', branch] s1
        = ((o2, Some e2), s2)"
    and checkout: "Execute e (Join D [outputPath, componentName]) ''git'' [''checkout'', ''-b'', branch] s2
        = ((o3, r3), s3)"
  show "count_list (snd (snd (RemoveAndPush D outputPath remote componentName e appFs branch ctx
          doPush (s, [])))) (git (Join D [outputPath, componentName]) [''checkout'', ''-b'', branch]) = 1"
    by (rule RemoveAndPush_checkout_once [OF clone switch checkout refl])
  fix e3 assume "r3 = Some e3"
  with checkout show "RemoveAndPush D outputPath remote componentName e appFs branch ctx doPush (s, []) =
             (Some (''failed to checkout branch '' @ Quote D branch @ '' in ''
                    @ Quote D (Join D [outputPath, componentName]) @ '' '' @ Quote D o3 @ '': '' @ e3),
              (s3, [git outputPath [''clone'', remote, componentName],
                    git (Join D [outputPath, componentName]) [''switch'', branch],
                    git (Join D [outputPath, componentName]) [''checkout'', ''-b'', branch]]))"
    using RemoveAndPush_checkout_fails [OF clone switch _ refl] by blast
qed

theorem checkout_fallback_once_witness:
  "count_list (snd (snd (CloneGenerateAndPush deps0 ''/fake/path''
        ''https://github.com/testing/testing.git'' component0 scripted () ''main'' ''gitops'' True
        ([(''test output1'', None), (''test output2'', Some ''test error''),
          (''test output3'', Some ''Fatal error'')], []))))
      (git (Join deps0 [''/fake/path'', Name component0]) [''checkout'', ''-b'', ''main'']) = 1
   \<and> CloneGenerateAndPush deps0 ''/fake/path'' ''https://github.com/testing/testing.git''
        component0 scripted () ''main'' ''gitops'' True
        ([(''test output1'', None), (''test output2'', Some ''test error''),
          (''test output3'', Some ''Fatal error'')], []) =
       (Some (''failed to checkout branch '' @ Quote deps0 ''main'' @ '' in ''
              @ Quote deps0 (Join deps0 [''/fake/path'', Name component0]) @ '' ''
              @ Quote deps0 ''test output3'' @ '': '' @ ''Fatal error''),
        ([], [git ''/fake/path'' [''clone'', ''https://github.com/testing/testing.git'', Name component0],
              git (Join deps0 [''/fake/path'', Name component0]) [''switch'', ''main''],
              git (Join deps0 [''/fake/path'', Name component0]) [''checkout'', ''-b'', ''main'']]))
   \<and> GenerateOverlaysAndPush deps0 ''/fake/path'' True ''https://github.com/testing/testing.git''
        component0 () ''test-application'' ''dev'' ''quay.io/test/test'' ''test-namespace'' scripted ()
        ''main'' ''gitops'' True Map.empty
        ([(''test output1'', None), (''test output2'', Some ''test error''),
          (''test output3'', Some ''Fatal error'')], []) =
       (Some (''failed to checkout branch '' @ Quote deps0 ''main'' @ '' in ''
              @ Quote deps0 (Join deps0 [''/fake/path'', ''test-application'']) @ '' ''
              @ Quote deps0 ''test output3'' @ '': '' @ ''Fatal error''),
        ([], [git ''/fake/path'' [''clone'', ''https://github.com/testing/testing.git'', ''test-application''],
              git (Join deps0 [''/fake/path'', ''test-application'']) [''switch'', ''main''],
              git (Join deps0 [''/fake/path'', ''test-application'']) [''checkout'', ''-b'', ''main'']]))
   \<and> RemoveAndPush deps0 ''/fake/path'' ''https://github.com/testing/testing.git''
        ''test-component'' scripted () ''main'' ''gitops'' True
        ([(''test output1'', None), (''test output2'', Some ''test error''),
          (''test output3'', Some ''Fatal error'')], []) =
       (Some (''failed to checkout branch '' @ Quote deps0 ''main'' @ '' in ''
              @ Quote deps0 (Join deps0 [''/fake/path'', ''test-component'']) @ '' ''
              @ Quote deps0 ''test output3'' @ '': '' @ ''Fatal error''),
        ([], [git ''/fake/path'' [''clone'', ''https://github.com/testing/testing.git'', ''test-component''],
              git (Join deps0 [''/fake/path'', ''test-component'']) [''switch'', ''main''],
              git (Join deps0 [''/fake/path'', ''test-component'']) [''checkout'', ''-b'', ''main'']]))"
proof -
  have h1: "Execute scripted ''/fake/path'' ''git'' [''clone'', ''https://github.com/testing/testing.git'', d]
      [(''test output1'', None), (''test output2'', Some ''test error''),
       (''test output3'', Some ''Fatal error'')] =
      ((''test output1'', None), [(''test output2'', Some ''test error''),
       (''test output3'', Some ''Fatal error'')])" for d
    by (simp add: scripted_def)
  have h2: "Execute scripted p ''git'' [''switch'', ''main'']
      [(''test output2'', Some ''test error''), (''test output3'', Some ''Fatal error'')] =
      ((''test output2'', Some ''test error''), [(''test output3'', Some ''Fatal error'')])" for p
    by (simp add: scripted_def)
  have h3: "Execute scripted p ''git'' [''checkout'', ''-b'', ''main'']
      [(''test output3'', Some ''Fatal error'')] = ((''test output3'', Some ''Fatal error''), [])" for p
    by (simp add: scripted_def)
  note t = checkout_fallback_once [where e = scripted and D = deps0
      and outputPath = "''/fake/path''" and remote = "''https://github.com/testing/testing.git''"
      and component = component0 and bcomponent = component0 and componentName = "''test-component''"
      and applicationName = "''test-application''"
      and s = "[(''test output1'', None), (''test output2'', Some ''test error''),
                (''test output3'', Some ''Fatal error'')]"
      and ?o1.0 = "''test output1''"
      and ?s1.0 = "[(''test output2'', Some ''test error''), (''test output3'', Some ''Fatal error'')]"
      and ?o2.0 = "''test output2''" and ?e2.0 = "''test error''"
      and ?s2.0 = "[(''test output3'', Some ''Fatal error'')]"
      and ?o3.0 = "''test output3''" and ?r3.0 = "Some ''Fatal error''" and ?s3.0 = "[]"
      and appFs = "()" and branch = "''main''" and ctx = "''gitops''" and doPush = True
      and environment = "()" and environmentName = "''dev''" and imageName = "''quay.io/test/test''"
      and namespace = "''test-namespace''" and componentGeneratedResources = Map.empty]
  note a = t [THEN conjunct1, THEN mp, OF h1, THEN mp, OF h2, THEN mp, OF h3]
  note b = t [THEN conjunct2, THEN conjunct1, THEN mp, OF h1, THEN mp, OF h2, THEN mp, OF h3]
  note c = t [THEN conjunct2, THEN conjunct2, THEN mp, OF h1, THEN mp, OF h2, THEN mp, OF h3]
  show ?thesis
    using a b c by blast
qed

text \<open>
  Claim C7. A call of \<open>RemoveAndPush\<close> in which every step succeeds runs \<open>rm -rf\<close> once, on
  the directory \<open>components/componentName\<close> of the GitOps folder of the clone, then rescans the
  GitOps folder with \<open>GenerateParentKustomize\<close>, and then (with \<open>doPush\<close>) stages and
  compares; when the comparison prints something it commits with the message
  \<open>Removed component componentName\<close> and pushes.
\<close>

theorem remove_and_push_success:
  assumes rp: "repoPath = Join D [outputPath, componentName]"
    and gf: "gitopsFolder = Join D [repoPath, ctx]"
    and cp: "componentPath = Join D [gitopsFolder, ''components'', componentName]"
    and clone: "Execute e outputPath ''git'' [''clone'', remote, componentName] s0 = ((o1, None), s1)"
    and switch: "Execute e repoPath ''git'' [''switch'', branch] s1 = ((o2, None), s2)"
    and rm: "Execute e repoPath ''rm'' [''-rf'', componentPath] s2 = ((o3, None), s3)"
    and gpk: "GenerateParentKustomize e appFs gitopsFolder s3 = (None, s4)"
    and add: "Execute e repoPath ''git'' [''add'', ''.''] s4 = ((o5, None), s5)"
    and diff: "Execute e repoPath ''git'' [''--no-pager'', ''diff'', ''--cached''] s5 = ((o6, None), s6)"
    and commit: "Execute e repoPath ''git'' [''commit'', ''-m'', ''Removed component '' @ componentName] s6
                   = ((o7, None), s7)"
    and push: "Execute e repoPath ''git'' [''push'', ''origin'', branch] s7 = ((o8, None), s8)"
  shows "RemoveAndPush D outputPath remote componentName e appFs branch ctx doPush (s0, []) =
     (None,
      if \<not> doPush then
        (s4, [git outputPath [''clone'', remote, componentName], git repoPath [''switch'', branch],
              rm_rf repoPath componentPath])
      else if o6 = [] then
        (s6, [git outputPath [''clone'', remote, componentName], git repoPath [''switch'', branch],
              rm_rf repoPath componentPath, git repoPath [''add'', ''.''],
              git repoPath [''--no-pager'', ''diff'', ''--cached'']])
      else
        (s8, [git outputPath [''clone'', remote, componentName], git repoPath [''switch'', branch],
              rm_rf repoPath componentPath, git repoPath [''add'', ''.''],
              git repoPath [''--no-pager'', ''diff'', ''--cached''],
              git repoPath [''commit'', ''-m'', ''Removed component '' @ componentName],
              git repoPath [''push'', ''origin'', branch]]))"
proof -
  define msg where "msg = ''Removed component '' @ componentName"
  have cg: "call (GenerateParentKustomize e appFs gitopsFolder) (s3, tr) = (None, (s4, tr))" for tr
    using gpk by (simp add: call_def)
  have cap: "CommitAndPush D outputPath [] remote componentName e branch msg (s4, tr) =
      (None, if o6 = [] then (s6, tr @ [git repoPath [''add'', ''.''],
                 git repoPath [''--no-pager'', ''diff'', ''--cached'']])
             else (s8, tr @ commit_push_cmds repoPath msg branch))" for tr
    using add diff commit [folded msg_def] push
    by (simp add: CommitAndPush_def Let_def andThen_def execute_def rp [symmetric])
  show ?thesis
    unfolding RemoveAndPush_def Let_def rp [symmetric] gf [symmetric] cp [symmetric]
      msg_def [symmetric]
    by (simp add: cloneRepository_eq [OF clone] checkoutBranch_switched [OF switch]
        execute_eq [OF rm] cg cap andThen_None)
qed

theorem remove_and_push_success_witness:
  "RemoveAndPush deps0 ''/fake/path'' ''https://github.com/testing/testing.git'' ''test-component''
     scripted () ''main'' ''gitops'' True
     ([(''test output1'', None), (''test output2'', None), (''test output3'', None),
       (''test output4'', None), (''test output5'', None), (''test output6'', None),
       (''test output7'', None)], []) =
   (None, ([],
     [git ''/fake/path'' [''clone'', ''https://github.com/testing/testing.git'', ''test-component''],
      git ''/fake/path/test-component'' [''switch'', ''main''],
      rm_rf ''/fake/path/test-component'' ''/fake/path/test-component/gitops/components/test-component'',
      git ''/fake/path/test-component'' [''add'', ''.''],
      git ''/fake/path/test-component'' [''--no-pager'', ''diff'', ''--cached''],
      git ''/fake/path/test-component'' [''commit'', ''-m'', ''Removed component test-component''],
      git ''/fake/path/test-component'' [''push'', ''origin'', ''main'']]))"
proof -
  have rp: "''/fake/path/test-component'' = Join deps0 [''/fake/path'', ''test-component'']"
    by (simp add: deps0_def)
  have gf: "''/fake/path/test-component/gitops'' = Join deps0 [''/fake/path/test-component'', ''gitops'']"
    by (simp add: deps0_def)
  have cp: "''/fake/path/test-component/gitops/components/test-component'' =
      Join deps0 [''/fake/path/test-component/gitops'', ''components'', ''test-component'']"
    by (simp add: deps0_def)
  have ex: "Execute scripted d c a (r # rs) = (r, rs)" for d c a r rs
    by (simp add: scripted_def)
  have gpk: "GenerateParentKustomize scripted () g s = (None, s)" for g s
    by (simp add: scripted_def)
  from remove_and_push_success [OF rp gf cp
      ex [of _ _ _ "(''test output1'', None)"] ex [of _ _ _ "(''test output2'', None)"]
      ex [of _ _ _ "(''test output3'', None)"] gpk
      ex [of _ _ _ "(''test output4'', None)"] ex [of _ _ _ "(''test output5'', None)"]
      ex [of _ _ _ "(''test output6'', None)"] ex [of _ _ _ "(''test output7'', None)" "[]"],
      where doPush = True]
  show ?thesis by simp
qed

text \<open>
  Claim C5. The error of a failed \<open>git push\<close> quotes the remote as it was passed in. With the
  remote of the repository's test \<open>git push failure with sanitized error message\<close>, whose
  user-info part is the token \<open>ghu_28lafsjdifouwej\<close>, the message returned by
  \<open>CloneGenerateAndPush\<close> contains the token itself; nothing replaces it by \<open><TOKEN>\<close>.
\<close>

theorem push_failure_error_keeps_token:
  "fst (CloneGenerateAndPush deps0 ''/fake/path''
          ''https://ghu_28lafsjdifouwej@github.com/testing/testing.git'' component0 scripted ()
          ''main'' ''gitops'' True
          ([(''test output7'', None), (''test output6'', None), (''test output5'', None),
            (''test output4'', None), (''test output3'', None), (''test output2'', None),
            (''test output1'', Some ''Fatal error'')], [])) =
   Some (''failed push remote to repository '' @ [CHR 0x22]
         @ ''https://ghu_28lafsjdifouwej@github.com/testing/testing.git'' @ [CHR 0x22] @ '' ''
         @ [CHR 0x22] @ ''test output1'' @ [CHR 0x22] @ '': Fatal error'')"
  by (simp add: CloneGenerateAndPush_def CommitAndPush_def cloneRepository_def checkoutBranch_def
      execute_def call_def andThen_def Let_def deps0_def scripted_def component0_def)

section \<open>Placement of the supplied resources: the fold in closed form\<close>

lemma place_no_canonical:
  "canonical_file k = None \<Longrightarrow>
   place (map (Pair k) xs @ rest) (files, others) = place rest (files, others @ xs)"
  by (induction xs arbitrary: others) simp_all

lemma place_canonical_taken:
  "canonical_file k = Some f \<Longrightarrow> map_of files f \<noteq> None \<Longrightarrow>
   place (map (Pair k) xs @ rest) (files, others) = place rest (files, others @ xs)"
  by (induction xs arbitrary: others) auto

lemma place_canonical_free:
  assumes "canonical_file k = Some f" and "map_of files f = None"
  shows "place (map (Pair k) xs @ rest) (files, others) =
     (case xs of [] \<Rightarrow> place rest (files, others)
      | x # xs' \<Rightarrow> place rest (files @ [(f, x)], others @ xs'))"
proof (cases xs)
  case Nil
  then show ?thesis by simp
next
  case (Cons x xs')
  have "map_of (files @ [(f, x)]) f \<noteq> None" by simp
  from place_canonical_taken [OF assms(1) this, of xs' rest others]
  show ?thesis using Cons assms by simp
qed

lemma place_discovered:
  "place (discovered kr) ([], []) =
     ((case Deployments kr of [] \<Rightarrow> [] | d # _ \<Rightarrow> [(''deployment.yaml'', d)])
      @ (case Services kr of [] \<Rightarrow> [] | s # _ \<Rightarrow> [(''service.yaml'', s)])
      @ (case Routes kr of [] \<Rightarrow> [] | r # _ \<Rightarrow> [(''route.yaml'', r)]),
      drop 1 (Deployments kr) @ drop 1 (Services kr) @ drop 1 (Routes kr) @ Ingresses kr
      @ Others kr)"
proof -
  have cd: "canonical_file Deployment = Some ''deployment.yaml''"
    and cs: "canonical_file Service = Some ''service.yaml''"
    and cr: "canonical_file Route = Some ''route.yaml''"
    and ci: "canonical_file Ingress = None" and co: "canonical_file Other = None"
    by (simp_all add: canonical_file_def)
  have last: "place (map (Pair Ingress) is @ map (Pair Other) os) (files, others) =
      (files, others @ is @ os)" for "is" os and files :: "(string \<times> 'a) list" and others
    using place_no_canonical [OF ci, of "is" "map (Pair Other) os" files others]
      place_no_canonical [OF co, of os "[]" files "others @ is"]
    by simp
  have routes: "map_of files ''route.yaml'' = None \<Longrightarrow>
      place (map (Pair Route) rs @ map (Pair Ingress) is @ map (Pair Other) os) (files, others) =
      (files @ (case rs of [] \<Rightarrow> [] | r # _ \<Rightarrow> [(''route.yaml'', r)]),
       others @ drop 1 rs @ is @ os)"
    for rs "is" os and files :: "(string \<times> 'a) list" and others
    using place_canonical_free [OF cr, of files rs "map (Pair Ingress) is @ map (Pair Other) os" others]
    by (cases rs) (simp_all add: last)
  have services: "map_of files ''service.yaml'' = None \<Longrightarrow> map_of files ''route.yaml'' = None \<Longrightarrow>
      place (map (Pair Service) ss @ map (Pair Route) rs @ map (Pair Ingress) is @ map (Pair Other) os)
        (files, others) =
      (files @ (case ss of [] \<Rightarrow> [] | s # _ \<Rightarrow> [(''service.yaml'', s)])
       @ (case rs of [] \<Rightarrow> [] | r # _ \<Rightarrow> [(''route.yaml'', r)]),
       others @ drop 1 ss @ drop 1 rs @ is @ os)"
    for ss rs "is" os and files :: "(string \<times> 'a) list" and others
    using place_canonical_free [OF cs, of files ss
        "map (Pair Route) rs @ map (Pair Ingress) is @ map (Pair Other) os" others]
    by (cases ss) (simp_all add: routes)
  show ?thesis
    unfolding discovered_def
    using place_canonical_free [OF cd, of "[]" "Deployments kr"
        "map (Pair Service) (Services kr) @ map (Pair Route) (Routes kr)
         @ map (Pair Ingress) (Ingresses kr) @ map (Pair Other) (Others kr)" "[]"]
    by (cases "Deployments kr") (simp_all add: services)
qed

section \<open>Claims about the placement of supplied resources\<close>

text \<open>
  Claim C6. The first supplied Deployment, Service and Route are the documents of
  \<open>deployment.yaml\<close>, \<open>service.yaml\<close> and \<open>route.yaml\<close>, and no other supplied resource is
  written to a canonical file. The aggregate document holds every subsequent Deployment, then
  every subsequent Service, then every subsequent Route, then the Ingresses, then the entries
  of \<open>Others\<close>, each in its supplied order; when it is not empty it is written to
  \<open>other_resources.yaml\<close>, the documents separated by a line \<open>---\<close>.
\<close>

theorem first_canonical_rest_aggregate:
  "(Deployments kr = d # ds \<longrightarrow>
      map_of (written_files marshal kr) ''deployment.yaml'' = Some (marshal d))
   \<and> (Services kr = s # ss \<longrightarrow>
      map_of (written_files marshal kr) ''service.yaml'' = Some (marshal s))
   \<and> (Routes kr = r # rs \<longrightarrow>
      map_of (written_files marshal kr) ''route.yaml'' = Some (marshal r))
   \<and> aggregate_documents kr =
       drop 1 (Deployments kr) @ drop 1 (Services kr) @ drop 1 (Routes kr) @ Ingresses kr
       @ Others kr
   \<and> (aggregate_documents kr \<noteq> [] \<longrightarrow>
      map_of (written_files marshal kr) ''other_resources.yaml'' =
        Some (separate_documents (map marshal (aggregate_documents kr))))
   \<and> map fst (written_files marshal kr) =
       (if Deployments kr = [] then [] else [''deployment.yaml''])
       @ (if Services kr = [] then [] else [''service.yaml''])
       @ (if Routes kr = [] then [] else [''route.yaml''])
       @ (if aggregate_documents kr = [] then [] else [''other_resources.yaml''])"
proof (intro conjI impI)
  assume "Deployments kr = d # ds"
  then show "map_of (written_files marshal kr) ''deployment.yaml'' = Some (marshal d)"
    by (simp add: written_files_def place_discovered)
next
  assume "Services kr = s # ss"
  then show "map_of (written_files marshal kr) ''service.yaml'' = Some (marshal s)"
    by (simp add: written_files_def place_discovered split: list.splits)
next
  assume "Routes kr = r # rs"
  then show "map_of (written_files marshal kr) ''route.yaml'' = Some (marshal r)"
    by (simp add: written_files_def place_discovered split: list.splits)
next
  show "aggregate_documents kr =
       drop 1 (Deployments kr) @ drop 1 (Services kr) @ drop 1 (Routes kr) @ Ingresses kr
       @ Others kr"
    by (simp add: aggregate_documents_def place_discovered)
next
  assume "aggregate_documents kr \<noteq> []"
  then show "map_of (written_files marshal kr) ''other_resources.yaml'' =
        Some (separate_documents (map marshal (aggregate_documents kr)))"
    by (simp add: written_files_def aggregate_documents_def place_discovered split: list.splits)
next
  show "map fst (written_files marshal kr) =
       (if Deployments kr = [] then [] else [''deployment.yaml''])
       @ (if Services kr = [] then [] else [''service.yaml''])
       @ (if Routes kr = [] then [] else [''route.yaml''])
       @ (if aggregate_documents kr = [] then [] else [''other_resources.yaml''])"
    by (simp add: written_files_def aggregate_documents_def place_discovered split: list.splits)
qed

theorem first_canonical_rest_aggregate_witness:
  "map_of (written_files (\<lambda>x. x) resources1) ''deployment.yaml'' = Some ''deployment1''
   \<and> map_of (written_files (\<lambda>x. x) resources1) ''service.yaml'' = Some ''service1''
   \<and> map_of (written_files (\<lambda>x. x) resources1) ''route.yaml'' = Some ''route1''
   \<and> aggregate_documents resources1 =
       [''deployment2'', ''service2'', ''route2'', ''ingress1'', ''ingress2'', ''pod1'']
   \<and> map_of (written_files (\<lambda>x. x) resources1) ''other_resources.yaml'' =
       Some (''deployment2---'' @ [CHR 0x0A] @ ''service2---'' @ [CHR 0x0A] @ ''route2---''
             @ [CHR 0x0A] @ ''ingress1---'' @ [CHR 0x0A] @ ''ingress2---'' @ [CHR 0x0A]
             @ ''pod1'')"
proof -
  have h1: "Deployments resources1 = ''deployment1'' # [''deployment2'']"
    and h2: "Services resources1 = ''service1'' # [''service2'']"
    and h3: "Routes resources1 = ''route1'' # [''route2'']"
    by (simp_all add: resources1_def)
  note t = first_canonical_rest_aggregate [of resources1 "''deployment1''" "[''deployment2'']"
      "\<lambda>x. x" "''service1''" "[''service2'']" "''route1''" "[''route2'']"]
  have o: "aggregate_documents resources1 =
      [''deployment2'', ''service2'', ''route2'', ''ingress1'', ''ingress2'', ''pod1'']"
    using t [THEN conjunct2, THEN conjunct2, THEN conjunct2, THEN conjunct1]
    by (simp add: resources1_def)
  then have h5: "aggregate_documents resources1 \<noteq> []" by simp
  show ?thesis
    using t [THEN conjunct1, THEN mp, OF h1]
      t [THEN conjunct2, THEN conjunct1, THEN mp, OF h2]
      t [THEN conjunct2, THEN conjunct2, THEN conjunct1, THEN mp, OF h3]
      o t [THEN conjunct2, THEN conjunct2, THEN conjunct2, THEN conjunct2, THEN conjunct1,
           THEN mp, OF h5]
    by simp
qed

end
